theory Spec2Isabelle
  imports Complex_Main
begin

section \<open>PartDesign::Revolution (FeatureRevolution.cpp)\<close>

text \<open>
  A shallow embedding of \<^verbatim>\<open>Revolution::execute\<close>, \<^verbatim>\<open>Revolution::updateAxis\<close> and
  \<^verbatim>\<open>Revolution::suggestReversed\<close>.

  Conventions of the embedding:
  \<^item> A C++ \<^verbatim>\<open>double\<close> is a \<^typ>\<open>real\<close>: arithmetic is exact, rounding, NaN and infinities
    are not represented.
  \<^item> \<^verbatim>\<open>TopoDS_Shape\<close> and \<^verbatim>\<open>TopoDS_Face\<close> are one type variable \<open>'shape\<close>;
    \<^verbatim>\<open>Base::Placement\<close>, \<^verbatim>\<open>gp_Trsf\<close> and \<^verbatim>\<open>TopLoc_Location\<close> are one type variable \<open>'loc\<close>;
    the value of a \<^verbatim>\<open>PropertyLinkSub\<close> (object and sub-element names) is \<open>'ref\<close>.
  \<^item> Everything \<^verbatim>\<open>execute\<close> calls that is not in FeatureRevolution.cpp (the members
    inherited from \<^verbatim>\<open>ProfileBased\<close> and the OpenCASCADE kernel) is a field of the record
    \<open>kernel\<close>. A collaborator that reads only other objects of the document (the
    profile, the base feature, the sketch support) is a value of that record.
  \<^item> A C++ exception is a value: the collaborators called outside the \<^verbatim>\<open>try\<close> block are
    typed by the exception their \<^verbatim>\<open>catch\<close> clause expects (\<^verbatim>\<open>Base::Exception\<close>, carrying its
    message); collaborators called inside the \<^verbatim>\<open>try\<close> block may throw either a
    \<^verbatim>\<open>Standard_Failure\<close> or a \<^verbatim>\<open>Base::Exception\<close>. Queries and transformations
    (\<^verbatim>\<open>IsNull\<close>, \<^verbatim>\<open>Move\<close>, \<^verbatim>\<open>Transform\<close>, the face explorer, \<^verbatim>\<open>checkLineCrossesFace\<close>,
    \<^verbatim>\<open>getReversedAngle\<close>, the \<^verbatim>\<open>gp_Dir\<close> constructor) are total.
\<close>

subsection \<open>Data\<close>

type_synonym Vector3d = "real \<times> real \<times> real"

text \<open>\<^verbatim>\<open>gp_Ax1(pnt, dir)\<close> and \<^verbatim>\<open>gp_Lin(pnt, dir)\<close>: a point and a direction.\<close>

type_synonym gp_Ax1 = "Vector3d \<times> Vector3d"

text \<open>The property \<^verbatim>\<open>Type\<close> is an enumeration over \<^verbatim>\<open>TypeEnums\<close> (line 46).\<close>

datatype TypeEnum = TypeAngle | TypeUpToLast | TypeUpToFirst | TypeUpToFace | TypeTwoAngles

fun getValueAsString :: "TypeEnum \<Rightarrow> string" where
  "getValueAsString TypeAngle = ''Angle''"
| "getValueAsString TypeUpToLast = ''UpToLast''"
| "getValueAsString TypeUpToFirst = ''UpToFirst''"
| "getValueAsString TypeUpToFace = ''UpToFace''"
| "getValueAsString TypeTwoAngles = ''TwoAngles''"

text \<open>The properties of the feature (lines 56-65, and those inherited from
  \<^verbatim>\<open>ProfileBased\<close> that \<^verbatim>\<open>execute\<close> reads or writes).\<close>

record ('shape, 'loc, 'ref) Revolution =
  Type :: TypeEnum
  Base :: Vector3d
  Axis :: Vector3d
  Angle :: real
  Angle2 :: real
  UpToFace :: 'ref
  ReferenceAxis :: 'ref
  Reversed :: bool
  Midplane :: bool
  Placement :: 'loc
  AddSubShape :: 'shape
  Shape :: 'shape

text \<open>Exceptions in flight.\<close>

datatype exc = Standard_Failure string | Base_Exception string

text \<open>
  What \<^verbatim>\<open>execute\<close> returns: \<^verbatim>\<open>StdReturn\<close>, or a \<^verbatim>\<open>DocumentObjectExecReturn\<close> built at one of
  the return sites of the source. The sites with a literal message are constructors of
  their own; \<open>BaseError\<close> is \<^verbatim>\<open>e.what()\<close> of a caught \<^verbatim>\<open>Base::Exception\<close> (lines 103, 119,
  248) and \<open>KernelFault\<close> is \<^verbatim>\<open>e.GetMessageString()\<close> of a caught \<^verbatim>\<open>Standard_Failure\<close>
  (line 245).
\<close>

datatype error =
    AngleTooLarge
  | AngleTooSmall
  | FaceFromSketchFailed
  | AxisIntersectsSketch
  | CouldNotRevolve
  | IntersectingSketchEntities
  | KernelFault string
  | BaseError string

datatype DocumentObjectExecReturn = StdReturn | ExecReturn error

fun what :: "error \<Rightarrow> string" where
  "what AngleTooLarge = ''Angle of revolution too large''"
| "what AngleTooSmall = ''Angle of revolution too small''"
| "what FaceFromSketchFailed = ''Creating a face from sketch failed''"
| "what AxisIntersectsSketch = ''Revolve axis intersects the sketch''"
| "what CouldNotRevolve = ''Could not revolve the sketch!''"
| "what IntersectingSketchEntities =
     ''Could not create face from sketch.'' @ [CHR 0x0A] @
     ''Intersecting sketch entities in a sketch are not allowed.''"
| "what (KernelFault m) = m"
| "what (BaseError m) = m"

text \<open>The messages of the exceptions that \<^verbatim>\<open>execute\<close> itself throws (lines 176, 188, 206, 227).\<close>

definition UpToFirstLastNotSupported :: exc where
  "UpToFirstLastNotSupported =
     Base_Exception ''ProfileBased: Revolution up to first/last is not yet supported''"

definition UpToFaceRevolveFailed :: exc where
  "UpToFaceRevolveFailed =
     Base_Exception ''ProfileBased: Up to face: Could not revolve the sketch!''"

definition RevolveFailed :: exc where
  "RevolveFailed = Base_Exception ''ProfileBased: Could not revolve the sketch!''"

definition FusionFailed :: exc where
  "FusionFailed = Base_Exception ''Fusion with base feature failed''"

subsection \<open>Collaborators\<close>

text \<open>
  \<^item> \<open>Precision_Angular\<close>: \<^verbatim>\<open>Precision::Angular()\<close>.
  \<^item> \<open>getVerifiedFace\<close>, \<open>getBaseShape\<close>, \<open>getSupportFace\<close>, \<open>positionByPrevious\<close> (the
    placement it stores in \<^verbatim>\<open>Placement\<close>), \<open>getFaceFromLinkSub\<close>, \<open>getUpToFace\<close> (the
    face it leaves in its first, in-out argument), \<open>refineShapeIfActive\<close>, \<open>getSolid\<close>,
    \<open>checkLineCrossesFace\<close>, \<open>getReversedAngle\<close>, \<open>getLocation\<close> (of a placement):
    members of \<^verbatim>\<open>ProfileBased\<close> and its bases.
  \<^item> \<open>getAxis\<close>: \<^verbatim>\<open>getAxis(pcReferenceAxis, subReferenceAxis, base, dir,
    ForbiddenAxis::NotParallelWithNormal)\<close>; the pair it leaves in \<^verbatim>\<open>base\<close> and \<^verbatim>\<open>dir\<close>.
  \<^item> \<open>TopoDS_Shape\<close>: the default-constructed, null shape. \<open>Faces\<close>: the shapes a
    \<^verbatim>\<open>TopExp_Explorer\<close> over \<^verbatim>\<open>TopAbs_FACE\<close> visits, in order.
  \<^item> \<open>SetRotation ax a\<close>: the location of the rotation about \<open>ax\<close> by \<open>a\<close> radians.
  \<^item> \<open>Perform_Angle base face support ax mode angle\<close>: \<^verbatim>\<open>RevolMaker.Init(base, face,
    support, ax, mode, Standard_True); RevolMaker.Perform(angle)\<close>; \<open>None\<close> when
    \<^verbatim>\<open>IsDone()\<close> is false afterwards, \<open>Some (Shape())\<close> otherwise. \<open>Perform_UpToFace\<close>
    likewise for \<^verbatim>\<open>Perform(upToFace)\<close>, and \<open>Fuse\<close> for \<^verbatim>\<open>BRepAlgoAPI_Fuse\<close>.
\<close>

record ('shape, 'loc, 'ref) kernel =
  Precision_Angular :: real
  getVerifiedFace :: "string + 'shape"
  getBaseShape :: "string + 'shape"
  getAxis :: "'ref \<Rightarrow> string + (Vector3d \<times> Vector3d)"
  getReversedAngle :: "Vector3d \<Rightarrow> Vector3d \<Rightarrow> real"
  TopoDS_Shape :: 'shape
  IsNull :: "'shape \<Rightarrow> bool"
  gp_Dir :: "Vector3d \<Rightarrow> Vector3d"
  SetRotation :: "gp_Ax1 \<Rightarrow> real \<Rightarrow> 'loc"
  Move :: "'loc \<Rightarrow> 'shape \<Rightarrow> 'shape"
  positionByPrevious :: "exc + 'loc"
  getLocation :: "'loc \<Rightarrow> 'loc"
  Inverted :: "'loc \<Rightarrow> 'loc"
  TransformPnt :: "'loc \<Rightarrow> Vector3d \<Rightarrow> Vector3d"
  TransformDir :: "'loc \<Rightarrow> Vector3d \<Rightarrow> Vector3d"
  Faces :: "'shape \<Rightarrow> 'shape list"
  checkLineCrossesFace :: "gp_Ax1 \<Rightarrow> 'shape \<Rightarrow> bool"
  getSupportFace :: "exc + 'shape"
  getFaceFromLinkSub :: "'ref \<Rightarrow> exc + 'shape"
  getUpToFace :: "'shape \<Rightarrow> 'shape \<Rightarrow> 'shape \<Rightarrow> string \<Rightarrow> Vector3d \<Rightarrow> exc + 'shape"
  Perform_Angle ::
    "'shape \<Rightarrow> 'shape \<Rightarrow> 'shape \<Rightarrow> gp_Ax1 \<Rightarrow> int \<Rightarrow> real \<Rightarrow> exc + 'shape option"
  Perform_UpToFace ::
    "'shape \<Rightarrow> 'shape \<Rightarrow> 'shape \<Rightarrow> gp_Ax1 \<Rightarrow> int \<Rightarrow> 'shape \<Rightarrow> exc + 'shape option"
  refineShapeIfActive :: "'shape \<Rightarrow> exc + 'shape"
  Fuse :: "'shape \<Rightarrow> 'shape \<Rightarrow> exc + 'shape option"
  getSolid :: "'shape \<Rightarrow> exc + 'shape"

text \<open>Modelled from the spec: \<^verbatim>\<open>Base::toRadians\<close> (Base/Tools.h) is not in the source
  file; the spec's \<open>radians(Angle)\<close>, degrees to radians.\<close>

definition toRadians :: "real \<Rightarrow> real" where
  "toRadians d = d * pi / 180"

subsection \<open>Revolution::updateAxis (lines 263-273)\<close>

definition updateAxis ::
  "('shape, 'loc, 'ref) kernel \<Rightarrow> ('shape, 'loc, 'ref) Revolution
     \<Rightarrow> string + ('shape, 'loc, 'ref) Revolution" where
  "updateAxis k s =
     (case getAxis k (ReferenceAxis s) of
        Inl m \<Rightarrow> Inl m
      | Inr (base, dir) \<Rightarrow> Inr (s\<lparr>Base := base, Axis := dir\<rparr>))"

subsection \<open>Revolution::suggestReversed (lines 252-261)\<close>

definition suggestReversed ::
  "('shape, 'loc, 'ref) kernel \<Rightarrow> ('shape, 'loc, 'ref) Revolution
     \<Rightarrow> ('shape, 'loc, 'ref) Revolution \<times> bool" where
  "suggestReversed k s =
     (case updateAxis k s of
        Inl m \<Rightarrow> (s, False)
      | Inr s' \<Rightarrow> (s', getReversedAngle k (Base s') (Axis s') < 0))"

subsection \<open>Revolution::execute (lines 81-250)\<close>

text \<open>Lines 134-148: the profile and the sweep angle after the Midplane or TwoAngles
  adjustment. \<open>angle\<close> and \<open>angle2\<close> are the locals of lines 89-97.\<close>

definition adjustProfile ::
  "('shape, 'loc, 'ref) kernel \<Rightarrow> ('shape, 'loc, 'ref) Revolution \<Rightarrow> Vector3d \<Rightarrow> Vector3d
     \<Rightarrow> 'shape \<Rightarrow> real \<Rightarrow> real \<Rightarrow> 'shape \<times> real" where
  "adjustProfile k s pnt dir sketchshape angle angle2 =
     (if Midplane s then
        (Move k (SetRotation k (pnt, dir) (toRadians (Angle s) * (- 1) / 2)) sketchshape, angle)
      else if getValueAsString (Type s) = ''TwoAngles'' then
        (Move k (SetRotation k (pnt, dir) (angle2 * (- 1))) sketchshape, angle + angle2)
      else (sketchshape, angle))"

text \<open>Lines 158-163: the loop over the faces of the profile; true when it returns at a
  face the axis crosses.\<close>

fun axisCrossesSketch ::
  "('shape, 'loc, 'ref) kernel \<Rightarrow> gp_Ax1 \<Rightarrow> 'shape list \<Rightarrow> bool" where
  "axisCrossesSketch k lin [] = False"
| "axisCrossesSketch k lin (f # fs) =
     (if checkLineCrossesFace k lin f then True else axisCrossesSketch k lin fs)"

text \<open>Lines 183-193: the loop of the up-to-face branch over the remaining faces, from the
  current \<open>base\<close> and \<open>mode\<close>; the final \<open>base\<close>.\<close>

fun revolveUpToFace ::
  "('shape, 'loc, 'ref) kernel \<Rightarrow> 'shape \<Rightarrow> gp_Ax1 \<Rightarrow> 'shape \<Rightarrow> 'shape \<Rightarrow> int \<Rightarrow> 'shape list
     \<Rightarrow> exc + 'shape" where
  "revolveUpToFace k supportface ax upToFace base mode [] = Inr base"
| "revolveUpToFace k supportface ax upToFace base mode (f # fs) =
     (case Perform_UpToFace k base f supportface ax mode upToFace of
        Inl e \<Rightarrow> Inl e
      | Inr None \<Rightarrow> Inl UpToFaceRevolveFailed
      | Inr (Some sh) \<Rightarrow>
          revolveUpToFace k supportface ax upToFace sh (if mode = 2 then 1 else mode) fs)"

text \<open>Lines 201-211: the loop of the angle branch. \<open>maker\<close> is the state of
  \<^verbatim>\<open>RevolMaker\<close>: \<open>None\<close> while \<^verbatim>\<open>IsDone()\<close> is false (as for the freshly constructed
  maker), \<open>Some sh\<close> when it is done with \<^verbatim>\<open>Shape()\<close> = \<open>sh\<close>. The final \<open>base\<close> and maker.\<close>

fun revolveAngle ::
  "('shape, 'loc, 'ref) kernel \<Rightarrow> 'shape \<Rightarrow> gp_Ax1 \<Rightarrow> real \<Rightarrow> 'shape \<Rightarrow> int \<Rightarrow> 'shape option
     \<Rightarrow> 'shape list \<Rightarrow> exc + ('shape \<times> 'shape option)" where
  "revolveAngle k supportface ax angle base mode maker [] = Inr (base, maker)"
| "revolveAngle k supportface ax angle base mode maker (f # fs) =
     (case Perform_Angle k base f supportface ax mode angle of
        Inl e \<Rightarrow> Inl e
      | Inr None \<Rightarrow> Inl RevolveFailed
      | Inr (Some sh) \<Rightarrow>
          revolveAngle k supportface ax angle sh (if mode = 2 then 1 else mode) (Some sh) fs)"

text \<open>Lines 165-215 after the support face is known: the pair of \<open>result\<close> and \<open>base\<close>
  that reaches line 217.\<close>

definition sweep ::
  "('shape, 'loc, 'ref) kernel \<Rightarrow> ('shape, 'loc, 'ref) Revolution \<Rightarrow> 'loc \<Rightarrow> 'shape
     \<Rightarrow> Vector3d \<Rightarrow> Vector3d \<Rightarrow> 'shape \<Rightarrow> 'shape \<Rightarrow> real \<Rightarrow> exc + ('shape \<times> 'shape)" where
  "sweep k s invObjLoc supportface pnt dir base sketchshape angle =
     (let method = getValueAsString (Type s) in
      if method = ''UpToFace'' \<or> method = ''UpToFirst'' \<or> method = ''UpToLast'' then
        (case (if method = ''UpToFace'' then
                 (case getFaceFromLinkSub k (UpToFace s) of
                    Inl e \<Rightarrow> Inl e
                  | Inr upToFace \<Rightarrow> Inr (Move k invObjLoc upToFace))
               else Inl UpToFirstLastNotSupported) of
           Inl e \<Rightarrow> Inl e
         | Inr upToFace \<Rightarrow>
             (case getUpToFace k upToFace base sketchshape method dir of
                Inl e \<Rightarrow> Inl e
              | Inr upToFace' \<Rightarrow>
                  (case revolveUpToFace k supportface (pnt, dir) upToFace' base 2
                          (Faces k sketchshape) of
                     Inl e \<Rightarrow> Inl e
                   | Inr base' \<Rightarrow> Inr (base', base'))))
      else
        (case revolveAngle k supportface (pnt, dir) angle base 2 None (Faces k sketchshape) of
           Inl e \<Rightarrow> Inl e
         | Inr (base', maker) \<Rightarrow>
             Inr (case maker of Some sh \<Rightarrow> sh | None \<Rightarrow> TopoDS_Shape k, base')))"

text \<open>Lines 222-230: the fusion of the refined \<open>result\<close> with \<open>base\<close>, when \<open>base\<close> is
  not null.\<close>

definition fuseWithBase ::
  "('shape, 'loc, 'ref) kernel \<Rightarrow> 'shape \<Rightarrow> 'shape \<Rightarrow> exc + 'shape" where
  "fuseWithBase k base result =
     (if \<not> IsNull k base then
        (case Fuse k base result of
           Inl e \<Rightarrow> Inl e
         | Inr None \<Rightarrow> Inl FusionFailed
         | Inr (Some fused) \<Rightarrow> refineShapeIfActive k fused)
      else Inr result)"

text \<open>Lines 217-237: refinement, \<^verbatim>\<open>AddSubShape\<close>, fusion with \<open>base\<close>, \<^verbatim>\<open>Shape\<close>. The state
  is returned with the exception when one is thrown.\<close>

definition commit ::
  "('shape, 'loc, 'ref) kernel \<Rightarrow> ('shape, 'loc, 'ref) Revolution \<Rightarrow> 'shape \<Rightarrow> 'shape
     \<Rightarrow> ('shape, 'loc, 'ref) Revolution \<times> (exc + DocumentObjectExecReturn)" where
  "commit k s result base =
     (if \<not> IsNull k result then
        (case refineShapeIfActive k result of
           Inl e \<Rightarrow> (s, Inl e)
         | Inr refined \<Rightarrow>
             (let s1 = s\<lparr>AddSubShape := refined\<rparr> in
              case fuseWithBase k base refined of
                Inl e \<Rightarrow> (s1, Inl e)
              | Inr final \<Rightarrow>
                  (case getSolid k final of
                     Inl e \<Rightarrow> (s1, Inl e)
                   | Inr solid \<Rightarrow> (s1\<lparr>Shape := solid\<rparr>, Inr StdReturn))))
      else (s, Inr (ExecReturn CouldNotRevolve)))"

text \<open>Lines 129-237: the body of the \<^verbatim>\<open>try\<close> block.\<close>

definition try_block ::
  "('shape, 'loc, 'ref) kernel \<Rightarrow> ('shape, 'loc, 'ref) Revolution \<Rightarrow> 'shape \<Rightarrow> 'shape
     \<Rightarrow> Vector3d \<Rightarrow> Vector3d \<Rightarrow> real \<Rightarrow> real
     \<Rightarrow> ('shape, 'loc, 'ref) Revolution \<times> (exc + DocumentObjectExecReturn)" where
  "try_block k s sketchshape base pnt dir angle angle2 =
     (if IsNull k sketchshape then (s, Inr (ExecReturn FaceFromSketchFailed))
      else
        (case adjustProfile k s pnt dir sketchshape angle angle2 of
           (sketchshape1, angle1) \<Rightarrow>
             (case positionByPrevious k of
                Inl e \<Rightarrow> (s, Inl e)
              | Inr placement \<Rightarrow>
                  (let s1 = s\<lparr>Placement := placement\<rparr>;
                       invObjLoc = Inverted k (getLocation k (Placement s1));
                       pnt1 = TransformPnt k invObjLoc pnt;
                       dir1 = TransformDir k invObjLoc dir;
                       base1 = Move k invObjLoc base;
                       sketchshape2 = Move k invObjLoc sketchshape1
                   in
                     if axisCrossesSketch k (pnt1, dir1) (Faces k sketchshape2)
                     then (s1, Inr (ExecReturn AxisIntersectsSketch))
                     else
                       (case getSupportFace k of
                          Inl e \<Rightarrow> (s1, Inl e)
                        | Inr supportface \<Rightarrow>
                            (case sweep k s1 invObjLoc (Move k invObjLoc supportface)
                                    pnt1 dir1 base1 sketchshape2 angle1 of
                               Inl e \<Rightarrow> (s1, Inl e)
                             | Inr (result, base2) \<Rightarrow> commit k s1 result base2))))))"

text \<open>Lines 239-249: the two \<^verbatim>\<open>catch\<close> clauses of the \<^verbatim>\<open>try\<close> block.\<close>

fun handler :: "exc \<Rightarrow> DocumentObjectExecReturn" where
  "handler (Standard_Failure m) =
     (if m = ''TopoDS::Face'' then ExecReturn IntersectingSketchEntities
      else ExecReturn (KernelFault m))"
| "handler (Base_Exception m) = ExecReturn (BaseError m)"

definition execute ::
  "('shape, 'loc, 'ref) kernel \<Rightarrow> ('shape, 'loc, 'ref) Revolution
     \<Rightarrow> ('shape, 'loc, 'ref) Revolution \<times> DocumentObjectExecReturn" where
  "execute k s =
     (let angleDeg = Angle s in
      if angleDeg > 360 then (s, ExecReturn AngleTooLarge)
      else
        (let angle = toRadians angleDeg in
         if angle < Precision_Angular k then (s, ExecReturn AngleTooSmall)
         else
           (let angle2 = toRadians (Angle2 s);
                angle' = (if Reversed s \<and> \<not> Midplane s then angle * (- 1) else angle)
            in
              case getVerifiedFace k of
                Inl m \<Rightarrow> (s, ExecReturn (BaseError m))
              | Inr sketchshape \<Rightarrow>
                  (let base = (case getBaseShape k of
                                 Inl m \<Rightarrow> TopoDS_Shape k
                               | Inr b \<Rightarrow> b)
                   in
                     case updateAxis k s of
                       Inl m \<Rightarrow> (s, ExecReturn (BaseError m))
                     | Inr s1 \<Rightarrow>
                         (let pnt = Base s1; dir = gp_Dir k (Axis s1) in
                          case try_block k s1 sketchshape base pnt dir angle' angle2 of
                            (s2, Inl e) \<Rightarrow> (s2, handler e)
                          | (s2, Inr r) \<Rightarrow> (s2, r))))))"

subsection \<open>The swept material\<close>

text \<open>
  The specification's swept solid is the raw result of the revolution, before and without
  any fusion with the base solid. For a profile of several faces it is built face by face
  with no base solid at all: the first face is revolved on its own (mode 2, against the
  null shape) and each further face is revolved in mode 1 against what has been swept so
  far. \<open>revolve base face mode\<close> is the revolve operation with the support face, the axis
  and the bound fixed. A revolve that throws or does not complete, or a profile without
  faces, leaves no swept material.
\<close>

fun layered ::
  "('shape \<Rightarrow> 'shape \<Rightarrow> int \<Rightarrow> exc + 'shape option) \<Rightarrow> 'shape \<Rightarrow> 'shape list
     \<Rightarrow> 'shape option" where
  "layered revolve acc [] = Some acc"
| "layered revolve acc (f # fs) =
     (case revolve acc f 1 of
        Inl e \<Rightarrow> None
      | Inr None \<Rightarrow> None
      | Inr (Some sh) \<Rightarrow> layered revolve sh fs)"

fun swept_material ::
  "'shape \<Rightarrow> ('shape \<Rightarrow> 'shape \<Rightarrow> int \<Rightarrow> exc + 'shape option) \<Rightarrow> 'shape list
     \<Rightarrow> 'shape option" where
  "swept_material null revolve [] = None"
| "swept_material null revolve (f # fs) =
     (case revolve null f 2 of
        Inl e \<Rightarrow> None
      | Inr None \<Rightarrow> None
      | Inr (Some sh) \<Rightarrow> layered revolve sh fs)"

text \<open>The swept material of a positioned profile for the termination mode of the feature:
  by the sweep angle for \<^verbatim>\<open>Angle\<close> and \<^verbatim>\<open>TwoAngles\<close>, up to the referenced face for
  \<^verbatim>\<open>UpToFace\<close>, none for the two modes that are not supported.\<close>

definition swept_solid ::
  "('shape, 'loc, 'ref) kernel \<Rightarrow> ('shape, 'loc, 'ref) Revolution \<Rightarrow> 'loc \<Rightarrow> 'shape
     \<Rightarrow> Vector3d \<Rightarrow> Vector3d \<Rightarrow> 'shape \<Rightarrow> real \<Rightarrow> 'shape option" where
  "swept_solid k s invObjLoc supportface pnt dir profile angle =
     (case Type s of
        TypeAngle \<Rightarrow>
          swept_material (TopoDS_Shape k)
            (\<lambda>b f m. Perform_Angle k b f supportface (pnt, dir) m angle) (Faces k profile)
      | TypeTwoAngles \<Rightarrow>
          swept_material (TopoDS_Shape k)
            (\<lambda>b f m. Perform_Angle k b f supportface (pnt, dir) m angle) (Faces k profile)
      | TypeUpToFace \<Rightarrow>
          (case getFaceFromLinkSub k (UpToFace s) of
             Inl e \<Rightarrow> None
           | Inr upToFace \<Rightarrow>
               (case getUpToFace k (Move k invObjLoc upToFace) (TopoDS_Shape k) profile
                       ''UpToFace'' dir of
                  Inl e \<Rightarrow> None
                | Inr upToFace' \<Rightarrow>
                    swept_material (TopoDS_Shape k)
                      (\<lambda>b f m. Perform_UpToFace k b f supportface (pnt, dir) m upToFace')
                      (Faces k profile)))
      | TypeUpToFirst \<Rightarrow> None
      | TypeUpToLast \<Rightarrow> None)"

subsection \<open>A concrete kernel and feature\<close>

text \<open>
  A small kernel on which the functions above can be evaluated. A shape records how it
  was made: \<open>Face r\<close> is the profile rotated by \<open>r\<close> radians in all, \<open>Revol r a\<close> the
  profile \<open>Face r\<close> swept by the angle \<open>a\<close>, \<open>Fused x y\<close> a boolean union. A location is
  the angle of a rotation. The reference \<open>True\<close> resolves to the Y axis through the
  origin; the reference \<open>False\<close> does not resolve.
\<close>

datatype demo_shape = Null | Face real | Revol real real | Fused demo_shape demo_shape

fun demo_Move :: "real \<Rightarrow> demo_shape \<Rightarrow> demo_shape" where
  "demo_Move l (Face r) = Face (r + l)"
| "demo_Move l sh = sh"

fun demo_revolve :: "demo_shape \<Rightarrow> real \<Rightarrow> demo_shape" where
  "demo_revolve (Face r) a = Revol r a"
| "demo_revolve sh a = Null"

definition demo_getAxis :: "bool \<Rightarrow> string + (Vector3d \<times> Vector3d)" where
  "demo_getAxis r =
     (if r then Inr ((0, 0, 0), (0, 1, 0)) else Inl ''No rotation axis reference specified'')"

definition demo_kernel :: "(demo_shape, real, bool) kernel" where
  "demo_kernel = \<lparr>
     Precision_Angular = 1 / 10 ^ 12,
     getVerifiedFace = Inr (Face 0),
     getBaseShape = Inl ''No base feature'',
     getAxis = demo_getAxis,
     getReversedAngle = (\<lambda>b d. - 1),
     TopoDS_Shape = Null,
     IsNull = (\<lambda>sh. sh = Null),
     gp_Dir = (\<lambda>v. v),
     SetRotation = (\<lambda>ax a. a),
     Move = demo_Move,
     positionByPrevious = Inr 0,
     getLocation = (\<lambda>l. l),
     Inverted = (\<lambda>l. - l),
     TransformPnt = (\<lambda>l v. v),
     TransformDir = (\<lambda>l v. v),
     Faces = (\<lambda>sh. [sh]),
     checkLineCrossesFace = (\<lambda>lin f. False),
     getSupportFace = Inr Null,
     getFaceFromLinkSub = (\<lambda>r. Inr (Face 0)),
     getUpToFace = (\<lambda>u b sk m d. Inr u),
     Perform_Angle = (\<lambda>b f sf ax m a. Inr (Some (demo_revolve f a))),
     Perform_UpToFace = (\<lambda>b f sf ax m u. Inr (Some (demo_revolve f 0))),
     refineShapeIfActive = (\<lambda>sh. Inr sh),
     Fuse = (\<lambda>a b. Inr (Some (Fused a b))),
     getSolid = (\<lambda>sh. Inr sh) \<rparr>"

text \<open>The feature as the constructor leaves it (lines 56-65), with a reference axis.\<close>

definition demo_feature :: "(demo_shape, real, bool) Revolution" where
  "demo_feature = \<lparr>
     Type = TypeAngle, Base = (0, 0, 0), Axis = (0, 1, 0), Angle = 360, Angle2 = 60,
     UpToFace = True, ReferenceAxis = True, Reversed = False, Midplane = False,
     Placement = 0, AddSubShape = Null, Shape = Null \<rparr>"

text \<open>A fusion that does not complete (\<^verbatim>\<open>IsDone()\<close> is false).\<close>

definition demo_Fuse_not_done :: "demo_shape \<Rightarrow> demo_shape \<Rightarrow> exc + demo_shape option" where
  "demo_Fuse_not_done a b = Inr None"

text \<open>Variants of the kernel's operations: an axis test that reports a crossing for every
  face; a revolve by angle that completes for one sweep angle only; a revolve up to a face
  that never completes.\<close>

definition demo_crossing :: "gp_Ax1 \<Rightarrow> demo_shape \<Rightarrow> bool" where
  "demo_crossing lin f = True"

definition demo_Perform_only ::
  "real \<Rightarrow> demo_shape \<Rightarrow> demo_shape \<Rightarrow> demo_shape \<Rightarrow> gp_Ax1 \<Rightarrow> int \<Rightarrow> real
     \<Rightarrow> exc + demo_shape option" where
  "demo_Perform_only A b f sf ax m a = (if a = A then Inr (Some (demo_revolve f a)) else Inr None)"

definition demo_Perform_UpToFace_none ::
  "demo_shape \<Rightarrow> demo_shape \<Rightarrow> demo_shape \<Rightarrow> gp_Ax1 \<Rightarrow> int \<Rightarrow> demo_shape
     \<Rightarrow> exc + demo_shape option" where
  "demo_Perform_UpToFace_none b f sf ax m u = Inr None"

text \<open>A profile without faces, and a profile of two faces (the second is the first moved
  by one radian).\<close>

definition demo_no_Faces :: "demo_shape \<Rightarrow> demo_shape list" where
  "demo_no_Faces sh = []"

definition demo_two_Faces :: "demo_shape \<Rightarrow> demo_shape list" where
  "demo_two_Faces sh = [sh, demo_Move 1 sh]"

text \<open>A revolve by angle that fuses the swept face with the base it is handed in every
  mode, and one that does so in mode 1 only and returns the swept face alone in mode 2.\<close>

definition demo_Perform_fusing ::
  "demo_shape \<Rightarrow> demo_shape \<Rightarrow> demo_shape \<Rightarrow> gp_Ax1 \<Rightarrow> int \<Rightarrow> real
     \<Rightarrow> exc + demo_shape option" where
  "demo_Perform_fusing b f sf ax m a = Inr (Some (Fused b (demo_revolve f a)))"

definition demo_Perform_layering ::
  "demo_shape \<Rightarrow> demo_shape \<Rightarrow> demo_shape \<Rightarrow> gp_Ax1 \<Rightarrow> int \<Rightarrow> real
     \<Rightarrow> exc + demo_shape option" where
  "demo_Perform_layering b f sf ax m a =
     Inr (Some (if m = 2 then demo_revolve f a else Fused b (demo_revolve f a)))"

text \<open>The concrete kernel with a base solid, profiles of two faces and the layering
  revolve.\<close>

definition demo_layering_kernel :: "(demo_shape, real, bool) kernel" where
  "demo_layering_kernel =
     demo_kernel\<lparr>getBaseShape := Inr (Revol 9 9), Faces := demo_two_Faces,
                  Perform_Angle := demo_Perform_layering\<rparr>"


section \<open>Properties\<close>

subsection \<open>Auxiliary facts\<close>

lemma toRadians_not_small: "1 \<le> d \<Longrightarrow> \<not> toRadians d < 1 / 10 ^ 12"
proof -
  assume d: "1 \<le> d"
  have "2 \<le> d * pi"
    using d pi_ge_two by (metis mult_mono mult_1 zero_le_one order_trans zero_le_numeral)
  then show ?thesis
    unfolding toRadians_def by (simp add: mult.commute)
qed

lemma commit_results:
  "commit k s result base = (s', Inr r) \<Longrightarrow> r = StdReturn \<or> r = ExecReturn CouldNotRevolve"
  by (auto simp: commit_def Let_def split: if_splits sum.splits)

lemma try_block_results:
  "try_block k s sk base pnt dir a a2 = (s', Inr r) \<Longrightarrow>
     r = StdReturn \<or> r = ExecReturn CouldNotRevolve \<or> r = ExecReturn FaceFromSketchFailed
       \<or> r = ExecReturn AxisIntersectsSketch"
  by (auto simp: try_block_def Let_def split: if_splits sum.splits prod.splits
        dest: commit_results)

lemma handler_results:
  "handler e \<noteq> ExecReturn AngleTooLarge" "handler e \<noteq> ExecReturn AngleTooSmall"
  "handler e \<noteq> StdReturn"
  by (cases e; simp)+

lemma execute_out_of_range:
  "360 < Angle s \<or> toRadians (Angle s) < Precision_Angular k \<Longrightarrow>
     execute k s = (s, ExecReturn (if 360 < Angle s then AngleTooLarge else AngleTooSmall))"
  by (auto simp: execute_def Let_def)

lemma execute_in_range:
  "\<not> 360 < Angle s \<Longrightarrow> \<not> toRadians (Angle s) < Precision_Angular k \<Longrightarrow>
     snd (execute k s) \<noteq> ExecReturn AngleTooLarge \<and>
     snd (execute k s) \<noteq> ExecReturn AngleTooSmall"
  by (auto simp: execute_def Let_def handler_results split: sum.splits prod.splits
        dest: try_block_results)

subsection \<open>What the stages read of the feature\<close>

lemma sweep_state:
  "Type t = Type s \<Longrightarrow> UpToFace t = UpToFace s \<Longrightarrow> sweep k t = sweep k s"
  by (intro ext) (simp add: sweep_def Let_def)

lemma adjustProfile_state:
  "Type t = Type s \<Longrightarrow> Midplane t = Midplane s \<Longrightarrow> Angle t = Angle s \<Longrightarrow>
     adjustProfile k t = adjustProfile k s"
  by (intro ext) (simp add: adjustProfile_def)

text \<open>An update of the feature that \<open>commit\<close> and \<open>try_block\<close> neither read nor overwrite
  commutes with them.\<close>

lemma commit_commute:
  assumes "\<And>t x. u t\<lparr>AddSubShape := x\<rparr> = u (t\<lparr>AddSubShape := x\<rparr>)"
    and "\<And>t x. u t\<lparr>Shape := x\<rparr> = u (t\<lparr>Shape := x\<rparr>)"
  shows "commit k (u s) result base =
     (case commit k s result base of (s', x) \<Rightarrow> (u s', x))"
  by (simp add: commit_def Let_def assms split: sum.split)

lemma try_block_commute:
  assumes a: "\<And>t x. u t\<lparr>AddSubShape := x\<rparr> = u (t\<lparr>AddSubShape := x\<rparr>)"
    and b: "\<And>t x. u t\<lparr>Shape := x\<rparr> = u (t\<lparr>Shape := x\<rparr>)"
    and c: "\<And>t x. u t\<lparr>Placement := x\<rparr> = u (t\<lparr>Placement := x\<rparr>)"
    and d: "\<And>t. Type (u t) = Type t" "\<And>t. UpToFace (u t) = UpToFace t"
      "\<And>t. Midplane (u t) = Midplane t" "\<And>t. Angle (u t) = Angle t"
  shows "try_block k (u s) sk base pnt dir a a2 =
     (case try_block k s sk base pnt dir a a2 of (s', x) \<Rightarrow> (u s', x))"
proof -
  have sw: "\<And>t. sweep k (u t) = sweep k t"
    by (rule sweep_state) (simp_all add: d)
  have ad: "adjustProfile k (u s) = adjustProfile k s"
    by (rule adjustProfile_state) (simp_all add: d)
  have pl: "\<And>t x. Placement (u (t\<lparr>Placement := x\<rparr>)) = x"
    by (simp add: c [symmetric])
  show ?thesis
    by (simp add: try_block_def Let_def c pl sw ad commit_commute [of u, OF a b]
          split: sum.split prod.split)
qed

subsection \<open>What the stages write\<close>

lemma commit_inputs:
  "commit k s result base = (s', x) \<Longrightarrow>
     Type s' = Type s \<and> Base s' = Base s \<and> Axis s' = Axis s \<and> Angle s' = Angle s \<and>
     Angle2 s' = Angle2 s \<and> UpToFace s' = UpToFace s \<and> ReferenceAxis s' = ReferenceAxis s \<and>
     Reversed s' = Reversed s \<and> Midplane s' = Midplane s \<and> Placement s' = Placement s"
  by (auto simp: commit_def Let_def split: if_splits sum.splits)

lemma try_block_inputs:
  "try_block k s sk base pnt dir a a2 = (s', x) \<Longrightarrow>
     Type s' = Type s \<and> Base s' = Base s \<and> Axis s' = Axis s \<and> Angle s' = Angle s \<and>
     Angle2 s' = Angle2 s \<and> UpToFace s' = UpToFace s \<and> ReferenceAxis s' = ReferenceAxis s \<and>
     Reversed s' = Reversed s \<and> Midplane s' = Midplane s"
  by (auto simp: try_block_def Let_def split: if_splits sum.splits prod.splits
        dest!: commit_inputs)

lemma commit_again:
  "commit k s result base = (s', x) \<Longrightarrow> commit k s' result base = (s', x)"
  by (auto simp: commit_def Let_def split: if_splits sum.splits)

lemma commit_Placement:
  "commit k (s\<lparr>Placement := p\<rparr>) result base = (s', x) \<Longrightarrow> s'\<lparr>Placement := p\<rparr> = s'"
  by (auto simp: commit_def Let_def split: if_splits sum.splits)

text \<open>The body of the \<^verbatim>\<open>try\<close> block once the profile is not null and
  \<^verbatim>\<open>positionByPrevious\<close> has returned.\<close>

lemma try_block_positioned:
  assumes "\<not> IsNull k sk" and "positionByPrevious k = Inr pl"
    and "adjustProfile k s pnt dir sk a a2 = (sk1, a1)"
    and "iv = Inverted k (getLocation k pl)"
    and "lin = (TransformPnt k iv pnt, TransformDir k iv dir)"
  shows "try_block k s sk base pnt dir a a2 =
          (if axisCrossesSketch k lin (Faces k (Move k iv sk1))
           then (s\<lparr>Placement := pl\<rparr>, Inr (ExecReturn AxisIntersectsSketch))
           else case getSupportFace k of
                  Inl e \<Rightarrow> (s\<lparr>Placement := pl\<rparr>, Inl e)
                | Inr sf \<Rightarrow>
                   (case sweep k (s\<lparr>Placement := pl\<rparr>) iv (Move k iv sf) (fst lin) (snd lin)
                           (Move k iv base) (Move k iv sk1) a1 of
                      Inl e \<Rightarrow> (s\<lparr>Placement := pl\<rparr>, Inl e)
                    | Inr (result, base2) \<Rightarrow> commit k (s\<lparr>Placement := pl\<rparr>) result base2))"
  using assms by (simp add: try_block_def Let_def cong: sum.case_cong)

lemma try_block_again:
  assumes one: "try_block k s sk base pnt dir a a2 = (s', x)"
  shows "try_block k s' sk base pnt dir a a2 = (s', x)"
proof -
  note inp = try_block_inputs [OF one]
  have ad: "adjustProfile k s' = adjustProfile k s"
    by (rule adjustProfile_state) (simp_all add: inp)
  have sw: "\<And>p. sweep k (s'\<lparr>Placement := p\<rparr>) = sweep k (s\<lparr>Placement := p\<rparr>)"
    by (rule sweep_state) (simp_all add: inp)
  obtain sk1 a1 where adj: "adjustProfile k s pnt dir sk a a2 = (sk1, a1)"
    by (cases "adjustProfile k s pnt dir sk a a2")
  show ?thesis
  proof (cases "IsNull k sk")
    case True
    with one show ?thesis by (simp add: try_block_def)
  next
    case nn: False
    show ?thesis
    proof (cases "positionByPrevious k")
      case (Inl e)
      with one nn adj show ?thesis
        by (simp add: try_block_def)
    next
      case (Inr pl)
      define iv where "iv = Inverted k (getLocation k pl)"
      define lin where "lin = (TransformPnt k iv pnt, TransformDir k iv dir)"
      note unf = try_block_positioned [OF nn Inr _ iv_def lin_def]
      note unf1 = unf [of s, OF adj] and unf2 = unf [of s', OF adj [folded ad]]
      show ?thesis
      proof (cases "axisCrossesSketch k lin (Faces k (Move k iv sk1))")
        case True
        with one show ?thesis by (auto simp: unf1 unf2)
      next
        case nc: False
        show ?thesis
        proof (cases "getSupportFace k")
          case (Inl e)
          with one nc show ?thesis by (auto simp: unf1 unf2)
        next
          case sf: (Inr sf)
          show ?thesis
          proof (cases "sweep k (s\<lparr>Placement := pl\<rparr>) iv (Move k iv sf) (fst lin) (snd lin)
                           (Move k iv base) (Move k iv sk1) a1")
            case (Inl e)
            with one nc sf show ?thesis by (auto simp: unf1 unf2 sw)
          next
            case (Inr rb)
            obtain result base2 where rb: "rb = (result, base2)" by (cases rb)
            from one nc sf Inr rb
            have c: "commit k (s\<lparr>Placement := pl\<rparr>) result base2 = (s', x)"
              by (simp add: unf1)
            have p: "s'\<lparr>Placement := pl\<rparr> = s'" by (rule commit_Placement [OF c])
            have "commit k s' result base2 = (s', x)" by (rule commit_again [OF c])
            with nc sf Inr rb p sw [of pl] show ?thesis by (simp add: unf2)
          qed
        qed
      qed
    qed
  qed
qed

subsection \<open>The paths through \<open>execute\<close>\<close>

lemma execute_profile_failed:
  assumes "\<not> 360 < Angle s" and "\<not> toRadians (Angle s) < Precision_Angular k"
    and "getVerifiedFace k = Inl m"
  shows "execute k s = (s, ExecReturn (BaseError m))"
  using assms by (simp add: execute_def Let_def)

lemma execute_axis_failed:
  assumes "\<not> 360 < Angle s" and "\<not> toRadians (Angle s) < Precision_Angular k"
    and "getVerifiedFace k = Inr sk" and "getAxis k (ReferenceAxis s) = Inl m"
  shows "execute k s = (s, ExecReturn (BaseError m))"
  using assms by (simp add: execute_def Let_def updateAxis_def)

lemma execute_try:
  assumes "\<not> 360 < Angle s" and "\<not> toRadians (Angle s) < Precision_Angular k"
    and "getVerifiedFace k = Inr sk" and "getAxis k (ReferenceAxis s) = Inr (b, d)"
  shows "execute k s =
    (case try_block k (s\<lparr>Base := b, Axis := d\<rparr>) sk
            (case getBaseShape k of Inl m \<Rightarrow> TopoDS_Shape k | Inr sh \<Rightarrow> sh) b (gp_Dir k d)
            (if Reversed s \<and> \<not> Midplane s then - toRadians (Angle s) else toRadians (Angle s))
            (toRadians (Angle2 s)) of
       (s2, x) \<Rightarrow> (s2, case x of Inl e \<Rightarrow> handler e | Inr r \<Rightarrow> r))"
  using assms by (simp add: execute_def Let_def updateAxis_def split: prod.split sum.split)

text \<open>Running \<open>execute\<close> again on the feature it left gives the same feature and result.\<close>

lemma execute_again:
  assumes one: "execute k s = (s', r)"
  shows "execute k s' = (s', r)"
proof (cases "360 < Angle s \<or> toRadians (Angle s) < Precision_Angular k")
  case True
  from one have "s' = s" by (simp add: execute_out_of_range [OF True])
  with one show ?thesis by simp
next
  case False
  then have ok: "\<not> 360 < Angle s" "\<not> toRadians (Angle s) < Precision_Angular k" by simp_all
  show ?thesis
  proof (cases "getVerifiedFace k")
    case (Inl m)
    from one have "s' = s" by (simp add: execute_profile_failed [OF ok Inl])
    with one show ?thesis by simp
  next
    case sk: (Inr sk)
    show ?thesis
    proof (cases "getAxis k (ReferenceAxis s)")
      case (Inl m)
      from one have "s' = s" by (simp add: execute_axis_failed [OF ok sk Inl])
      with one show ?thesis by simp
    next
      case (Inr bd)
      obtain b d where bd: "getAxis k (ReferenceAxis s) = Inr (b, d)"
        using Inr by (cases bd) simp
      define base where "base = (case getBaseShape k of Inl m \<Rightarrow> TopoDS_Shape k | Inr sh \<Rightarrow> sh)"
      define a where "a = (if Reversed s \<and> \<not> Midplane s then - toRadians (Angle s)
                           else toRadians (Angle s))"
      obtain x where tb: "try_block k (s\<lparr>Base := b, Axis := d\<rparr>) sk base b (gp_Dir k d) a
                            (toRadians (Angle2 s)) = (s', x)"
        and r: "r = (case x of Inl e \<Rightarrow> handler e | Inr r \<Rightarrow> r)"
        using one unfolding execute_try [OF ok sk bd] base_def a_def
        by (auto split: prod.splits)
      note inp = try_block_inputs [OF tb]
      have upd: "s'\<lparr>Base := b, Axis := d\<rparr> = s'"
        using inp by simp
      have ok': "\<not> 360 < Angle s'" "\<not> toRadians (Angle s') < Precision_Angular k"
        and bd': "getAxis k (ReferenceAxis s') = Inr (b, d)"
        using ok bd inp by simp_all
      have a': "(if Reversed s' \<and> \<not> Midplane s' then - toRadians (Angle s')
                 else toRadians (Angle s')) = a"
        and a2: "Angle2 s' = Angle2 s"
        using inp by (simp_all add: a_def)
      have "try_block k s' sk base b (gp_Dir k d) a (toRadians (Angle2 s)) = (s', x)"
        by (rule try_block_again [OF tb])
      then show ?thesis
        unfolding execute_try [OF ok' sk bd'] a' a2 upd base_def [symmetric]
        by (simp add: r)
    qed
  qed
qed

subsection \<open>What the stages use of the kernel\<close>

lemma axisCrossesSketch_kernel:
  "checkLineCrossesFace k' = checkLineCrossesFace k \<Longrightarrow>
     axisCrossesSketch k' lin fs = axisCrossesSketch k lin fs"
  by (induction fs) simp_all

lemma revolveAngle_kernel:
  "(\<And>b f m. f \<in> set fs \<Longrightarrow> Perform_Angle k' b f sf ax m a = Perform_Angle k b f sf ax m a) \<Longrightarrow>
     revolveAngle k' sf ax a base mode maker fs = revolveAngle k sf ax a base mode maker fs"
proof (induction fs arbitrary: base mode maker)
  case Nil
  show ?case by simp
next
  case (Cons f fs)
  have "Perform_Angle k' base f sf ax mode a = Perform_Angle k base f sf ax mode a"
    by (rule Cons.prems) simp
  moreover have "\<And>b m mk. revolveAngle k' sf ax a b m mk fs = revolveAngle k sf ax a b m mk fs"
    by (rule Cons.IH) (simp add: Cons.prems)
  ultimately show ?case by (simp cong: sum.case_cong option.case_cong)
qed

lemma revolveUpToFace_kernel:
  "(\<And>b f m. f \<in> set fs \<Longrightarrow>
      Perform_UpToFace k' b f sf ax m u = Perform_UpToFace k b f sf ax m u) \<Longrightarrow>
     revolveUpToFace k' sf ax u base mode fs = revolveUpToFace k sf ax u base mode fs"
proof (induction fs arbitrary: base mode)
  case Nil
  show ?case by simp
next
  case (Cons f fs)
  have "Perform_UpToFace k' base f sf ax mode u = Perform_UpToFace k base f sf ax mode u"
    by (rule Cons.prems) simp
  moreover have "\<And>b m. revolveUpToFace k' sf ax u b m fs = revolveUpToFace k sf ax u b m fs"
    by (rule Cons.IH) (simp add: Cons.prems)
  ultimately show ?case by (simp cong: sum.case_cong option.case_cong)
qed

lemma sweep_kernel:
  assumes "getFaceFromLinkSub k' = getFaceFromLinkSub k" and "Move k' = Move k"
    and "getUpToFace k' = getUpToFace k" and "Faces k' = Faces k"
    and "TopoDS_Shape k' = TopoDS_Shape k"
    and pa: "\<And>b f m. f \<in> set (Faces k sk) \<Longrightarrow>
          Perform_Angle k' b f sf (pnt, dir) m a = Perform_Angle k b f sf (pnt, dir) m a"
    and pu: "\<And>b f m u. f \<in> set (Faces k sk) \<Longrightarrow>
          Perform_UpToFace k' b f sf (pnt, dir) m u = Perform_UpToFace k b f sf (pnt, dir) m u"
  shows "sweep k' s iv sf pnt dir base sk a = sweep k s iv sf pnt dir base sk a"
proof -
  have ra: "\<And>b m mk. revolveAngle k' sf (pnt, dir) a b m mk (Faces k sk)
                    = revolveAngle k sf (pnt, dir) a b m mk (Faces k sk)"
    by (rule revolveAngle_kernel) (rule pa)
  have ru: "\<And>u b m. revolveUpToFace k' sf (pnt, dir) u b m (Faces k sk)
                    = revolveUpToFace k sf (pnt, dir) u b m (Faces k sk)"
    by (rule revolveUpToFace_kernel) (rule pu)
  show ?thesis
    by (simp add: sweep_def Let_def assms(1-5) ra ru split: sum.split prod.split option.split)
qed

lemma adjustProfile_kernel:
  "Move k' = Move k \<Longrightarrow> SetRotation k' = SetRotation k \<Longrightarrow>
     adjustProfile k' = adjustProfile k"
  by (intro ext) (simp add: adjustProfile_def)

subsection \<open>Failures and the committed shapes\<close>

lemma commit_failure_Shape:
  "commit k s result base = (s', x) \<Longrightarrow> x \<noteq> Inr StdReturn \<Longrightarrow> Shape s' = Shape s"
  by (auto simp: commit_def Let_def split: if_splits sum.splits)

lemma commit_ExecReturn:
  "commit k s result base = (s', Inr (ExecReturn e)) \<Longrightarrow> s' = s"
  by (auto simp: commit_def Let_def split: if_splits sum.splits)

lemma commit_AddSubShape:
  "AddSubShape (fst (commit k s result base)) =
     (if IsNull k result then AddSubShape s
      else case refineShapeIfActive k result of Inl e \<Rightarrow> AddSubShape s | Inr refined \<Rightarrow> refined)"
  by (simp add: commit_def Let_def split: sum.split)

lemma commit_thrown:
  "commit k s result base = (s', Inl e) \<Longrightarrow>
     AddSubShape s' = AddSubShape s \<or>
     (\<not> IsNull k result \<and> refineShapeIfActive k result = Inr (AddSubShape s') \<and>
      (fuseWithBase k base (AddSubShape s') = Inl e \<or>
       (\<exists>final. fuseWithBase k base (AddSubShape s') = Inr final \<and> getSolid k final = Inl e)))"
  by (auto simp: commit_def Let_def split: if_splits sum.splits)

lemma commit_success:
  "commit k s result base = (s', Inr StdReturn) \<Longrightarrow>
     \<not> IsNull k result \<and> refineShapeIfActive k result = Inr (AddSubShape s')"
  by (auto simp: commit_def Let_def split: if_splits sum.splits)

lemma try_block_failure_Shape:
  "try_block k s sk base pnt dir a a2 = (s', x) \<Longrightarrow> x \<noteq> Inr StdReturn \<Longrightarrow> Shape s' = Shape s"
  by (auto simp: try_block_def Let_def split: if_splits sum.splits prod.splits
        dest: commit_failure_Shape)

lemma try_block_ExecReturn:
  "try_block k s sk base pnt dir a a2 = (s', Inr (ExecReturn e)) \<Longrightarrow>
     AddSubShape s' = AddSubShape s"
  by (auto simp: try_block_def Let_def split: if_splits sum.splits prod.splits
        dest: commit_ExecReturn)

lemma try_block_thrown:
  "try_block k s sk base pnt dir a a2 = (s', Inl e) \<Longrightarrow>
     AddSubShape s' = AddSubShape s \<or>
     (\<exists>result base2. \<not> IsNull k result \<and> refineShapeIfActive k result = Inr (AddSubShape s') \<and>
      (fuseWithBase k base2 (AddSubShape s') = Inl e \<or>
       (\<exists>final. fuseWithBase k base2 (AddSubShape s') = Inr final \<and> getSolid k final = Inl e)))"
  by (auto simp: try_block_def Let_def split: if_splits sum.splits prod.splits
        dest!: commit_thrown)

lemma try_block_success:
  "try_block k s sk base pnt dir a a2 = (s', Inr StdReturn) \<Longrightarrow>
     \<exists>s1 iv sf pnt1 dir1 base1 sk1 a1 result base2.
        Type s1 = Type s \<and> UpToFace s1 = UpToFace s \<and>
        sweep k s1 iv sf pnt1 dir1 base1 sk1 a1 = Inr (result, base2) \<and>
        \<not> IsNull k result \<and> refineShapeIfActive k result = Inr (AddSubShape s')"
  apply (clarsimp simp: try_block_def Let_def simp del: split_paired_Ex
        split: if_splits sum.splits prod.splits dest!: commit_success)
  apply (rule_tac x = "s\<lparr>Placement := x2a\<rparr>" in exI)
  apply (simp del: split_paired_Ex)
  apply blast
  done

subsection \<open>Kernels that differ in one operation\<close>

lemma try_block_Fuse_AddSubShape:
  "AddSubShape (fst (try_block (k\<lparr>Fuse := f\<rparr>) s sk base pnt dir a a2))
     = AddSubShape (fst (try_block k s sk base pnt dir a a2))"
proof -
  have ad: "adjustProfile (k\<lparr>Fuse := f\<rparr>) = adjustProfile k"
    by (rule adjustProfile_kernel) simp_all
  have ax: "\<And>lin fs. axisCrossesSketch (k\<lparr>Fuse := f\<rparr>) lin fs = axisCrossesSketch k lin fs"
    by (rule axisCrossesSketch_kernel) simp
  have sw: "\<And>s iv sf pnt dir base sk a.
      sweep (k\<lparr>Fuse := f\<rparr>) s iv sf pnt dir base sk a = sweep k s iv sf pnt dir base sk a"
    by (rule sweep_kernel) simp_all
  show ?thesis
    by (simp add: try_block_def Let_def ad ax sw commit_AddSubShape
          split: sum.split prod.split)
qed


text \<open>Two kernels that agree on what \<open>execute\<close> uses before the \<^verbatim>\<open>try\<close> block, and a relation
  between the features that holds when the \<^verbatim>\<open>try\<close> block is not reached.\<close>

lemma execute_kernel_rel:
  assumes same: "Precision_Angular k' = Precision_Angular k"
      "getVerifiedFace k' = getVerifiedFace k" "getBaseShape k' = getBaseShape k"
      "getAxis k' = getAxis k" "TopoDS_Shape k' = TopoDS_Shape k" "gp_Dir k' = gp_Dir k"
    and refl: "\<And>r. R (s, r) (s, r)"
    and tb: "\<And>sk b d. getVerifiedFace k = Inr sk \<Longrightarrow> getAxis k (ReferenceAxis s) = Inr (b, d) \<Longrightarrow>
      R (case try_block k' (s\<lparr>Base := b, Axis := d\<rparr>) sk
              (case getBaseShape k of Inl m \<Rightarrow> TopoDS_Shape k | Inr sh \<Rightarrow> sh) b (gp_Dir k d)
              (if Reversed s \<and> \<not> Midplane s then - toRadians (Angle s)
               else toRadians (Angle s))
              (toRadians (Angle2 s)) of
           (s2, x) \<Rightarrow> (s2, case x of Inl e \<Rightarrow> handler e | Inr r \<Rightarrow> r))
        (case try_block k (s\<lparr>Base := b, Axis := d\<rparr>) sk
              (case getBaseShape k of Inl m \<Rightarrow> TopoDS_Shape k | Inr sh \<Rightarrow> sh) b (gp_Dir k d)
              (if Reversed s \<and> \<not> Midplane s then - toRadians (Angle s)
               else toRadians (Angle s))
              (toRadians (Angle2 s)) of
           (s2, x) \<Rightarrow> (s2, case x of Inl e \<Rightarrow> handler e | Inr r \<Rightarrow> r))"
  shows "R (execute k' s) (execute k s)"
proof (cases "360 < Angle s \<or> toRadians (Angle s) < Precision_Angular k")
  case True
  then have "360 < Angle s \<or> toRadians (Angle s) < Precision_Angular k'"
    by (simp add: same)
  from execute_out_of_range [OF this] execute_out_of_range [OF True] show ?thesis
    by (simp add: refl)
next
  case False
  then have ok: "\<not> 360 < Angle s" "\<not> toRadians (Angle s) < Precision_Angular k"
    and ok': "\<not> 360 < Angle s" "\<not> toRadians (Angle s) < Precision_Angular k'"
    by (simp_all add: same)
  show ?thesis
  proof (cases "getVerifiedFace k")
    case (Inl m)
    then have "getVerifiedFace k' = Inl m" by (simp add: same)
    from execute_profile_failed [OF ok' this] execute_profile_failed [OF ok Inl]
    show ?thesis by (simp add: refl)
  next
    case sk: (Inr sk)
    then have sk': "getVerifiedFace k' = Inr sk" by (simp add: same)
    show ?thesis
    proof (cases "getAxis k (ReferenceAxis s)")
      case (Inl m)
      then have "getAxis k' (ReferenceAxis s) = Inl m" by (simp add: same)
      from execute_axis_failed [OF ok' sk' this] execute_axis_failed [OF ok sk Inl]
      show ?thesis by (simp add: refl)
    next
      case (Inr bd)
      obtain b d where bd: "getAxis k (ReferenceAxis s) = Inr (b, d)"
        using Inr by (cases bd) simp
      then have bd': "getAxis k' (ReferenceAxis s) = Inr (b, d)" by (simp add: same)
      show ?thesis
        unfolding execute_try [OF ok' sk' bd'] execute_try [OF ok sk bd] same
        by (rule tb [OF sk bd])
    qed
  qed
qed

lemma execute_Fuse_AddSubShape:
  "AddSubShape (fst (execute (k\<lparr>Fuse := f\<rparr>) s)) = AddSubShape (fst (execute k s))"
  by (rule execute_kernel_rel [where R = "\<lambda>p q. AddSubShape (fst p) = AddSubShape (fst q)"])
    (simp_all add: split_beta try_block_Fuse_AddSubShape)

lemma execute_elim:
  assumes "execute k s = (s', r)"
  obtains (early) e where "s' = s" and "r = ExecReturn e"
  | (tried) sk b d x where "\<not> 360 < Angle s" and "\<not> toRadians (Angle s) < Precision_Angular k"
      and "getVerifiedFace k = Inr sk" and "getAxis k (ReferenceAxis s) = Inr (b, d)"
      and "try_block k (s\<lparr>Base := b, Axis := d\<rparr>) sk
            (case getBaseShape k of Inl m \<Rightarrow> TopoDS_Shape k | Inr sh \<Rightarrow> sh) b (gp_Dir k d)
            (if Reversed s \<and> \<not> Midplane s then - toRadians (Angle s) else toRadians (Angle s))
            (toRadians (Angle2 s)) = (s', x)"
      and "r = (case x of Inl e \<Rightarrow> handler e | Inr r \<Rightarrow> r)"
proof (cases "360 < Angle s \<or> toRadians (Angle s) < Precision_Angular k")
  case True
  from assms have "s' = s"
    and "r = ExecReturn (if 360 < Angle s then AngleTooLarge else AngleTooSmall)"
    by (auto simp: execute_out_of_range [OF True])
  then show ?thesis by (rule early)
next
  case False
  then have ok: "\<not> 360 < Angle s" "\<not> toRadians (Angle s) < Precision_Angular k" by simp_all
  show ?thesis
  proof (cases "getVerifiedFace k")
    case (Inl m)
    from assms have "s' = s" and "r = ExecReturn (BaseError m)"
      by (simp_all add: execute_profile_failed [OF ok Inl])
    then show ?thesis by (rule early)
  next
    case sk: (Inr sk)
    show ?thesis
    proof (cases "getAxis k (ReferenceAxis s)")
      case (Inl m)
      from assms have "s' = s" and "r = ExecReturn (BaseError m)"
        by (simp_all add: execute_axis_failed [OF ok sk Inl])
      then show ?thesis by (rule early)
    next
      case (Inr bd)
      obtain b d where bd: "getAxis k (ReferenceAxis s) = Inr (b, d)"
        using Inr by (cases bd) simp
      obtain s2 x where T: "try_block k (s\<lparr>Base := b, Axis := d\<rparr>) sk
            (case getBaseShape k of Inl m \<Rightarrow> TopoDS_Shape k | Inr sh \<Rightarrow> sh) b (gp_Dir k d)
            (if Reversed s \<and> \<not> Midplane s then - toRadians (Angle s) else toRadians (Angle s))
            (toRadians (Angle2 s)) = (s2, x)"
        by (rule prod.exhaust)
      from assms have s2: "s2 = s'" and r: "r = (case x of Inl e \<Rightarrow> handler e | Inr r \<Rightarrow> r)"
        unfolding execute_try [OF ok sk bd] T by simp_all
      show ?thesis
        by (rule tried [OF ok sk bd T [unfolded s2] r])
    qed
  qed
qed

lemma execute_success_AddSubShape:
  assumes "execute k s = (s', StdReturn)"
  shows "\<exists>s1 iv sf pnt1 dir1 base1 sk1 a1 result base2.
        Type s1 = Type s \<and> UpToFace s1 = UpToFace s \<and>
        sweep k s1 iv sf pnt1 dir1 base1 sk1 a1 = Inr (result, base2) \<and>
        \<not> IsNull k result \<and> refineShapeIfActive k result = Inr (AddSubShape s')"
  using assms
proof (cases rule: execute_elim)
  case (early e)
  then show ?thesis by simp
next
  case (tried sk b d x)
  from tried(6) have "x = Inr StdReturn"
    by (cases x) (simp_all add: handler_results [symmetric])
  from try_block_success [OF tried(5) [unfolded this]] show ?thesis
    by (simp del: split_paired_Ex)
qed

subsection \<open>Termination modes\<close>

lemma sweep_UpToFirstLast:
  "Type s = TypeUpToFirst \<or> Type s = TypeUpToLast \<Longrightarrow>
     sweep k s iv sf pnt dir base sk a = Inl UpToFirstLastNotSupported"
  by (auto simp: sweep_def)

lemma adjustProfile_not_TwoAngles:
  "Type s \<noteq> TypeTwoAngles \<or> Midplane s \<Longrightarrow>
     adjustProfile k s pnt dir sk a a2 =
       (if Midplane s then Move k (SetRotation k (pnt, dir) (- toRadians (Angle s) / 2)) sk
        else sk, a)"
  by (cases "Type s") (auto simp: adjustProfile_def)

subsection \<open>Kernels that agree on the calls of a run\<close>

lemma axisCrossesSketch_iff:
  "axisCrossesSketch k lin fs \<longleftrightarrow> (\<exists>f \<in> set fs. checkLineCrossesFace k lin f)"
  by (induction fs) auto

lemma fuseWithBase_kernel:
  "IsNull k' = IsNull k \<Longrightarrow> Fuse k' = Fuse k \<Longrightarrow>
   refineShapeIfActive k' = refineShapeIfActive k \<Longrightarrow> fuseWithBase k' = fuseWithBase k"
  by (intro ext) (simp add: fuseWithBase_def split: sum.split option.split)

lemma commit_kernel:
  "IsNull k' = IsNull k \<Longrightarrow> Fuse k' = Fuse k \<Longrightarrow>
   refineShapeIfActive k' = refineShapeIfActive k \<Longrightarrow> getSolid k' = getSolid k \<Longrightarrow>
   commit k' = commit k"
  by (intro ext) (simp add: commit_def Let_def fuseWithBase_kernel [of k' k] split: sum.split)

text \<open>Two kernels that agree on everything the \<^verbatim>\<open>try\<close> block uses, except that the
  revolve operations need only agree on the calls this run can make: at the faces of the
  positioned profile that the axis does not cross, about the positioned axis, and (for
  the angle) at the adjusted sweep angle.\<close>

lemma try_block_kernel:
  assumes same: "IsNull k' = IsNull k" "positionByPrevious k' = positionByPrevious k"
      "getLocation k' = getLocation k" "Inverted k' = Inverted k"
      "TransformPnt k' = TransformPnt k" "TransformDir k' = TransformDir k"
      "Move k' = Move k" "Faces k' = Faces k"
      "checkLineCrossesFace k' = checkLineCrossesFace k" "getSupportFace k' = getSupportFace k"
      "refineShapeIfActive k' = refineShapeIfActive k" "Fuse k' = Fuse k"
      "getSolid k' = getSolid k" "getFaceFromLinkSub k' = getFaceFromLinkSub k"
      "getUpToFace k' = getUpToFace k" "TopoDS_Shape k' = TopoDS_Shape k"
    and adj: "adjustProfile k' s pnt dir sk a a2 = adjustProfile k s pnt dir sk a a2"
    and perf: "\<And>pl sk1 a1 iv lin b f sf m u.
        positionByPrevious k = Inr pl \<Longrightarrow> adjustProfile k s pnt dir sk a a2 = (sk1, a1) \<Longrightarrow>
        iv = Inverted k (getLocation k pl) \<Longrightarrow>
        lin = (TransformPnt k iv pnt, TransformDir k iv dir) \<Longrightarrow>
        f \<in> set (Faces k (Move k iv sk1)) \<Longrightarrow> \<not> checkLineCrossesFace k lin f \<Longrightarrow>
        Perform_Angle k' b f sf lin m a1 = Perform_Angle k b f sf lin m a1 \<and>
        Perform_UpToFace k' b f sf lin m u = Perform_UpToFace k b f sf lin m u"
  shows "try_block k' s sk base pnt dir a a2 = try_block k s sk base pnt dir a a2"
proof (cases "IsNull k sk")
  case True
  then show ?thesis by (simp add: try_block_def same)
next
  case nn: False
  then have nn': "\<not> IsNull k' sk" by (simp add: same)
  obtain sk1 a1 where ad: "adjustProfile k s pnt dir sk a a2 = (sk1, a1)"
    by (rule prod.exhaust)
  show ?thesis
  proof (cases "positionByPrevious k")
    case (Inl e)
    with nn ad adj show ?thesis by (simp add: try_block_def same)
  next
    case (Inr pl)
    then have pp': "positionByPrevious k' = Inr pl" by (simp add: same)
    define iv where "iv = Inverted k (getLocation k pl)"
    define lin where "lin = (TransformPnt k iv pnt, TransformDir k iv dir)"
    have iv': "iv = Inverted k' (getLocation k' pl)"
      and lin': "lin = (TransformPnt k' iv pnt, TransformDir k' iv dir)"
      by (simp_all add: iv_def lin_def same)
    note one = try_block_positioned [OF nn Inr ad iv_def lin_def]
    note two = try_block_positioned [OF nn' pp' ad [folded adj] iv' lin']
    have ax: "axisCrossesSketch k' lin (Faces k (Move k iv sk1))
                = axisCrossesSketch k lin (Faces k (Move k iv sk1))"
      by (rule axisCrossesSketch_kernel) (rule same)
    have cm: "commit k' = commit k"
      by (rule commit_kernel) (rule same)+
    show ?thesis
    proof (cases "axisCrossesSketch k lin (Faces k (Move k iv sk1))")
      case True
      then show ?thesis by (simp add: one two same ax)
    next
      case False
      then have nc: "\<And>f. f \<in> set (Faces k (Move k iv sk1)) \<Longrightarrow> \<not> checkLineCrossesFace k lin f"
        by (simp add: axisCrossesSketch_iff)
      have sw: "sweep k' t iv sf (fst lin) (snd lin) b (Move k iv sk1) a1
                  = sweep k t iv sf (fst lin) (snd lin) b (Move k iv sk1) a1" for t sf b
      proof (rule sweep_kernel)
        fix b f m
        assume "f \<in> set (Faces k (Move k iv sk1))"
        from perf [OF Inr ad iv_def lin_def this nc [OF this]]
        show "Perform_Angle k' b f sf (fst lin, snd lin) m a1
                = Perform_Angle k b f sf (fst lin, snd lin) m a1"
          by simp
      next
        fix b f m u
        assume "f \<in> set (Faces k (Move k iv sk1))"
        from perf [OF Inr ad iv_def lin_def this nc [OF this]]
        show "Perform_UpToFace k' b f sf (fst lin, snd lin) m u
                = Perform_UpToFace k b f sf (fst lin, snd lin) m u"
          by simp
      qed (rule same)+
      from False show ?thesis
        by (simp add: one two same ax sw cm split: sum.split prod.split)
    qed
  qed
qed

text \<open>The revolve operations replaced by ones that agree with them on the calls a run
  can make.\<close>

lemma execute_Perform:
  assumes perf: "\<And>sk b d pl sk1 a1 iv lin bs f sf m u.
        getVerifiedFace k = Inr sk \<Longrightarrow> getAxis k (ReferenceAxis s) = Inr (b, d) \<Longrightarrow>
        positionByPrevious k = Inr pl \<Longrightarrow>
        adjustProfile k s b (gp_Dir k d) sk
          (if Reversed s \<and> \<not> Midplane s then - toRadians (Angle s) else toRadians (Angle s))
          (toRadians (Angle2 s)) = (sk1, a1) \<Longrightarrow>
        iv = Inverted k (getLocation k pl) \<Longrightarrow>
        lin = (TransformPnt k iv b, TransformDir k iv (gp_Dir k d)) \<Longrightarrow>
        f \<in> set (Faces k (Move k iv sk1)) \<Longrightarrow> \<not> checkLineCrossesFace k lin f \<Longrightarrow>
        PA bs f sf lin m a1 = Perform_Angle k bs f sf lin m a1 \<and>
        PU bs f sf lin m u = Perform_UpToFace k bs f sf lin m u"
  shows "execute (k\<lparr>Perform_Angle := PA, Perform_UpToFace := PU\<rparr>) s = execute k s"
proof (rule execute_kernel_rel [where R = "(=)"])
  fix sk b d
  assume sk: "getVerifiedFace k = Inr sk" and bd: "getAxis k (ReferenceAxis s) = Inr (b, d)"
  define s1 where "s1 = s\<lparr>Base := b, Axis := d\<rparr>"
  have ad: "adjustProfile k s1 = adjustProfile k s"
    by (rule adjustProfile_state) (simp_all add: s1_def)
  have "try_block (k\<lparr>Perform_Angle := PA, Perform_UpToFace := PU\<rparr>) s1 sk base b (gp_Dir k d)
              (if Reversed s \<and> \<not> Midplane s then - toRadians (Angle s)
               else toRadians (Angle s)) (toRadians (Angle2 s))
        = try_block k s1 sk base b (gp_Dir k d)
              (if Reversed s \<and> \<not> Midplane s then - toRadians (Angle s)
               else toRadians (Angle s)) (toRadians (Angle2 s))" for base
  proof (rule try_block_kernel)
    show "adjustProfile (k\<lparr>Perform_Angle := PA, Perform_UpToFace := PU\<rparr>) s1 b (gp_Dir k d) sk
              (if Reversed s \<and> \<not> Midplane s then - toRadians (Angle s)
               else toRadians (Angle s)) (toRadians (Angle2 s))
        = adjustProfile k s1 b (gp_Dir k d) sk
              (if Reversed s \<and> \<not> Midplane s then - toRadians (Angle s)
               else toRadians (Angle s)) (toRadians (Angle2 s))"
      by (simp add: adjustProfile_kernel [of "k\<lparr>Perform_Angle := PA, Perform_UpToFace := PU\<rparr>" k])
  next
    fix pl sk1 a1 iv lin bs f sf m u
    assume "positionByPrevious k = Inr pl"
      and "adjustProfile k s1 b (gp_Dir k d) sk
              (if Reversed s \<and> \<not> Midplane s then - toRadians (Angle s)
               else toRadians (Angle s)) (toRadians (Angle2 s)) = (sk1, a1)"
      and "iv = Inverted k (getLocation k pl)"
      and "lin = (TransformPnt k iv b, TransformDir k iv (gp_Dir k d))"
      and "f \<in> set (Faces k (Move k iv sk1))" and "\<not> checkLineCrossesFace k lin f"
    from perf [OF sk bd this(1) this(2) [unfolded ad] this(3-6)]
    show "Perform_Angle (k\<lparr>Perform_Angle := PA, Perform_UpToFace := PU\<rparr>) bs f sf lin m a1
            = Perform_Angle k bs f sf lin m a1 \<and>
          Perform_UpToFace (k\<lparr>Perform_Angle := PA, Perform_UpToFace := PU\<rparr>) bs f sf lin m u
            = Perform_UpToFace k bs f sf lin m u"
      by simp
  qed simp_all
  then show "(case try_block (k\<lparr>Perform_Angle := PA, Perform_UpToFace := PU\<rparr>)
                  (s\<lparr>Base := b, Axis := d\<rparr>) sk
              (case getBaseShape k of Inl m \<Rightarrow> TopoDS_Shape k | Inr sh \<Rightarrow> sh) b (gp_Dir k d)
              (if Reversed s \<and> \<not> Midplane s then - toRadians (Angle s)
               else toRadians (Angle s))
              (toRadians (Angle2 s)) of
           (s2, x) \<Rightarrow> (s2, case x of Inl e \<Rightarrow> handler e | Inr r \<Rightarrow> r))
      = (case try_block k (s\<lparr>Base := b, Axis := d\<rparr>) sk
              (case getBaseShape k of Inl m \<Rightarrow> TopoDS_Shape k | Inr sh \<Rightarrow> sh) b (gp_Dir k d)
              (if Reversed s \<and> \<not> Midplane s then - toRadians (Angle s)
               else toRadians (Angle s))
              (toRadians (Angle2 s)) of
           (s2, x) \<Rightarrow> (s2, case x of Inl e \<Rightarrow> handler e | Inr r \<Rightarrow> r))"
    by (simp add: s1_def)
qed simp_all

subsection \<open>Features that differ in a property that is not read\<close>

lemma try_block_commute_gen:
  assumes a: "\<And>t x. u t\<lparr>AddSubShape := x\<rparr> = u (t\<lparr>AddSubShape := x\<rparr>)"
    and b: "\<And>t x. u t\<lparr>Shape := x\<rparr> = u (t\<lparr>Shape := x\<rparr>)"
    and c: "\<And>t x. u t\<lparr>Placement := x\<rparr> = u (t\<lparr>Placement := x\<rparr>)"
    and nul: "IsNull k sk' = IsNull k sk"
    and adj: "adjustProfile k (u s) pnt dir sk' a' a2' = adjustProfile k s pnt dir sk a a2"
    and sw: "\<And>p. sweep k (u (s\<lparr>Placement := p\<rparr>)) = sweep k (s\<lparr>Placement := p\<rparr>)"
  shows "try_block k (u s) sk' base pnt dir a' a2' =
     (case try_block k s sk base pnt dir a a2 of (s', x) \<Rightarrow> (u s', x))"
proof -
  have pl: "\<And>t x. Placement (u (t\<lparr>Placement := x\<rparr>)) = x"
    by (simp add: c [symmetric])
  show ?thesis
    by (simp add: try_block_def Let_def c pl sw adj nul commit_commute [of u, OF a b]
          split: sum.split prod.split)
qed

lemma try_block_angle2:
  assumes "Midplane s \<or> Type s \<noteq> TypeTwoAngles"
  shows "try_block k s sk base pnt dir a a2 = try_block k s sk base pnt dir a a2'"
proof -
  have "adjustProfile k s pnt dir sk a a2 = adjustProfile k s pnt dir sk a a2'"
    using assms by (cases "Type s") (auto simp: adjustProfile_def)
  then show ?thesis
    by (simp add: try_block_def)
qed

text \<open>An update of the feature that \<open>execute\<close> neither reads nor overwrites commutes with
  it; \<^verbatim>\<open>Reversed\<close> and \<^verbatim>\<open>Angle2\<close> may change where they are not read.\<close>

lemma execute_commute:
  assumes a: "\<And>t x. u t\<lparr>AddSubShape := x\<rparr> = u (t\<lparr>AddSubShape := x\<rparr>)"
    and b: "\<And>t x. u t\<lparr>Shape := x\<rparr> = u (t\<lparr>Shape := x\<rparr>)"
    and c: "\<And>t x. u t\<lparr>Placement := x\<rparr> = u (t\<lparr>Placement := x\<rparr>)"
    and ba: "\<And>t x y. u t\<lparr>Base := x, Axis := y\<rparr> = u (t\<lparr>Base := x, Axis := y\<rparr>)"
    and d: "\<And>t. Type (u t) = Type t" "\<And>t. UpToFace (u t) = UpToFace t"
      "\<And>t. Midplane (u t) = Midplane t" "\<And>t. Angle (u t) = Angle t"
      "\<And>t. ReferenceAxis (u t) = ReferenceAxis t"
    and rev: "Reversed (u s) = Reversed s \<or> Midplane s"
    and ang2: "Angle2 (u s) = Angle2 s \<or> Midplane s \<or> Type s \<noteq> TypeTwoAngles"
  shows "execute k (u s) = (case execute k s of (s', x) \<Rightarrow> (u s', x))"
proof (cases "360 < Angle s \<or> toRadians (Angle s) < Precision_Angular k")
  case True
  then have "360 < Angle (u s) \<or> toRadians (Angle (u s)) < Precision_Angular k"
    by (simp add: d)
  from execute_out_of_range [OF this] execute_out_of_range [OF True] show ?thesis
    by (simp add: d)
next
  case False
  then have ok: "\<not> 360 < Angle s" "\<not> toRadians (Angle s) < Precision_Angular k"
    and ok': "\<not> 360 < Angle (u s)" "\<not> toRadians (Angle (u s)) < Precision_Angular k"
    by (simp_all add: d)
  show ?thesis
  proof (cases "getVerifiedFace k")
    case (Inl m)
    from execute_profile_failed [OF ok' Inl] execute_profile_failed [OF ok Inl]
    show ?thesis by simp
  next
    case sk: (Inr sk)
    show ?thesis
    proof (cases "getAxis k (ReferenceAxis s)")
      case (Inl m)
      then have "getAxis k (ReferenceAxis (u s)) = Inl m" by (simp add: d)
      from execute_axis_failed [OF ok' sk this] execute_axis_failed [OF ok sk Inl]
      show ?thesis by simp
    next
      case (Inr bd)
      obtain b d where bd: "getAxis k (ReferenceAxis s) = Inr (b, d)"
        using Inr by (cases bd) simp
      then have bd': "getAxis k (ReferenceAxis (u s)) = Inr (b, d)" by (simp add: d)
      define s1 where "s1 = s\<lparr>Base := b, Axis := d\<rparr>"
      define base where "base = (case getBaseShape k of Inl m \<Rightarrow> TopoDS_Shape k | Inr sh \<Rightarrow> sh)"
      define A where "A = (if Reversed s \<and> \<not> Midplane s then - toRadians (Angle s)
                           else toRadians (Angle s))"
      have A': "(if Reversed (u s) \<and> \<not> Midplane (u s) then - toRadians (Angle (u s))
                 else toRadians (Angle (u s))) = A"
        using rev by (auto simp: A_def d)
      have m: "Midplane s1 \<or> Type s1 \<noteq> TypeTwoAngles \<or> Angle2 (u s) = Angle2 s"
        using ang2 by (auto simp: s1_def)
      have "try_block k (u s1) sk base b (gp_Dir k d) A (toRadians (Angle2 (u s)))
             = try_block k (u s1) sk base b (gp_Dir k d) A (toRadians (Angle2 s))"
        using m try_block_angle2 [of "u s1" k sk base b "gp_Dir k d" A
                 "toRadians (Angle2 (u s))" "toRadians (Angle2 s)"]
        by (auto simp: d)
      also have "\<dots> = (case try_block k s1 sk base b (gp_Dir k d) A (toRadians (Angle2 s)) of
                         (s', x) \<Rightarrow> (u s', x))"
      proof (rule try_block_commute_gen [OF a b c refl])
        show "adjustProfile k (u s1) b (gp_Dir k d) sk A (toRadians (Angle2 s))
                = adjustProfile k s1 b (gp_Dir k d) sk A (toRadians (Angle2 s))"
          by (simp add: adjustProfile_state [of "u s1" s1] d)
        show "sweep k (u (s1\<lparr>Placement := p\<rparr>)) = sweep k (s1\<lparr>Placement := p\<rparr>)" for p
          by (rule sweep_state) (simp_all add: d)
      qed
      finally show ?thesis
        unfolding execute_try [OF ok' sk bd'] execute_try [OF ok sk bd] A' ba
        by (simp add: A_def base_def s1_def split: prod.split)
    qed
  qed
qed

lemma execute_Reversed_Midplane:
  "Midplane s \<Longrightarrow>
     execute k (s\<lparr>Reversed := r\<rparr>) = (case execute k s of (s', x) \<Rightarrow> (s'\<lparr>Reversed := r\<rparr>, x))"
  by (rule execute_commute [where u = "\<lambda>t. t\<lparr>Reversed := r\<rparr>"]) simp_all

lemma execute_Angle2_unused:
  "Midplane s \<or> Type s \<noteq> TypeTwoAngles \<Longrightarrow>
     execute k (s\<lparr>Angle2 := x\<rparr>) = (case execute k s of (s', r) \<Rightarrow> (s'\<lparr>Angle2 := x\<rparr>, r))"
  by (rule execute_commute [where u = "\<lambda>t. t\<lparr>Angle2 := x\<rparr>"]) auto

subsection \<open>The sweep specification\<close>

lemma execute_Perform_Angle_at:
  assumes "\<And>sk b d sk1 a1. getVerifiedFace k = Inr sk \<Longrightarrow> getAxis k (ReferenceAxis s) = Inr (b, d) \<Longrightarrow>
        adjustProfile k s b (gp_Dir k d) sk
          (if Reversed s \<and> \<not> Midplane s then - toRadians (Angle s) else toRadians (Angle s))
          (toRadians (Angle2 s)) = (sk1, a1) \<Longrightarrow> a1 = A"
    and "\<And>b f sf ax m. PA b f sf ax m A = Perform_Angle k b f sf ax m A"
  shows "execute (k\<lparr>Perform_Angle := PA\<rparr>) s = execute k s"
proof -
  have "execute (k\<lparr>Perform_Angle := PA, Perform_UpToFace := Perform_UpToFace k\<rparr>) s
          = execute k s"
  proof (rule execute_Perform)
    fix sk b d pl sk1 a1 iv lin bs f sf m u
    assume "getVerifiedFace k = Inr sk" and "getAxis k (ReferenceAxis s) = Inr (b, d)"
      and "adjustProfile k s b (gp_Dir k d) sk
          (if Reversed s \<and> \<not> Midplane s then - toRadians (Angle s) else toRadians (Angle s))
          (toRadians (Angle2 s)) = (sk1, a1)"
    from assms(1) [OF this] assms(2)
    show "PA bs f sf lin m a1 = Perform_Angle k bs f sf lin m a1 \<and>
          Perform_UpToFace k bs f sf lin m u = Perform_UpToFace k bs f sf lin m u"
      by simp
  qed
  then show ?thesis by simp
qed

lemma execute_SetRotation:
  assumes "\<And>sk b d. getVerifiedFace k = Inr sk \<Longrightarrow> getAxis k (ReferenceAxis s) = Inr (b, d) \<Longrightarrow>
        adjustProfile (k\<lparr>SetRotation := R\<rparr>) s b (gp_Dir k d) sk
          (if Reversed s \<and> \<not> Midplane s then - toRadians (Angle s) else toRadians (Angle s))
          (toRadians (Angle2 s))
        = adjustProfile k s b (gp_Dir k d) sk
          (if Reversed s \<and> \<not> Midplane s then - toRadians (Angle s) else toRadians (Angle s))
          (toRadians (Angle2 s))"
  shows "execute (k\<lparr>SetRotation := R\<rparr>) s = execute k s"
proof (rule execute_kernel_rel [where R = "(=)"])
  fix sk b d
  assume sk: "getVerifiedFace k = Inr sk" and bd: "getAxis k (ReferenceAxis s) = Inr (b, d)"
  define s1 where "s1 = s\<lparr>Base := b, Axis := d\<rparr>"
  have ad: "adjustProfile k' s1 = adjustProfile k' s" for k' :: "('a, 'b, 'c) kernel"
    by (rule adjustProfile_state) (simp_all add: s1_def)
  have "try_block (k\<lparr>SetRotation := R\<rparr>) s1 sk base b (gp_Dir k d)
              (if Reversed s \<and> \<not> Midplane s then - toRadians (Angle s)
               else toRadians (Angle s)) (toRadians (Angle2 s))
        = try_block k s1 sk base b (gp_Dir k d)
              (if Reversed s \<and> \<not> Midplane s then - toRadians (Angle s)
               else toRadians (Angle s)) (toRadians (Angle2 s))" for base
    by (rule try_block_kernel) (simp_all add: ad assms [OF sk bd])
  then show "(case try_block (k\<lparr>SetRotation := R\<rparr>) (s\<lparr>Base := b, Axis := d\<rparr>) sk
              (case getBaseShape k of Inl m \<Rightarrow> TopoDS_Shape k | Inr sh \<Rightarrow> sh) b (gp_Dir k d)
              (if Reversed s \<and> \<not> Midplane s then - toRadians (Angle s)
               else toRadians (Angle s))
              (toRadians (Angle2 s)) of
           (s2, x) \<Rightarrow> (s2, case x of Inl e \<Rightarrow> handler e | Inr r \<Rightarrow> r))
      = (case try_block k (s\<lparr>Base := b, Axis := d\<rparr>) sk
              (case getBaseShape k of Inl m \<Rightarrow> TopoDS_Shape k | Inr sh \<Rightarrow> sh) b (gp_Dir k d)
              (if Reversed s \<and> \<not> Midplane s then - toRadians (Angle s)
               else toRadians (Angle s))
              (toRadians (Angle2 s)) of
           (s2, x) \<Rightarrow> (s2, case x of Inl e \<Rightarrow> handler e | Inr r \<Rightarrow> r))"
    by (simp add: s1_def)
qed simp_all

lemma adjustProfile_Midplane:
  "Midplane s \<Longrightarrow> adjustProfile k s pnt dir sk a a2 =
     (Move k (SetRotation k (pnt, dir) (- toRadians (Angle s) / 2)) sk, a)"
  by (simp add: adjustProfile_def)



subsection \<open>Two angles\<close>



subsection \<open>The loops and the swept material\<close>

text \<open>From the second face on, the loops layer each face in mode 1 onto the result so
  far; when the revolve of the first face, in mode 2, does not use the base it is handed,
  the loops compute the swept material.\<close>

lemma revolveAngle_layered:
  "revolveAngle k sf ax a acc 1 (Some acc) fs = Inr (b', mk) \<Longrightarrow>
     mk = Some b' \<and> layered (\<lambda>b f m. Perform_Angle k b f sf ax m a) acc fs = Some b'"
  by (induction fs arbitrary: acc) (auto split: sum.splits option.splits)

lemma revolveUpToFace_layered:
  "revolveUpToFace k sf ax u acc 1 fs = Inr b' \<Longrightarrow>
     layered (\<lambda>b f m. Perform_UpToFace k b f sf ax m u) acc fs = Some b'"
  by (induction fs arbitrary: acc) (auto split: sum.splits option.splits)

lemma revolveAngle_swept:
  assumes "revolveAngle k sf ax a base 2 None (f # fs) = Inr (b', mk)"
    and "Perform_Angle k base f sf ax 2 a = Perform_Angle k null f sf ax 2 a"
  shows "mk = Some b' \<and>
     swept_material null (\<lambda>b f m. Perform_Angle k b f sf ax m a) (f # fs) = Some b'"
  using assms by (auto split: sum.splits option.splits dest: revolveAngle_layered)

lemma revolveUpToFace_swept:
  assumes "revolveUpToFace k sf ax u base 2 (f # fs) = Inr b'"
    and "Perform_UpToFace k base f sf ax 2 u = Perform_UpToFace k null f sf ax 2 u"
  shows "swept_material null (\<lambda>b f m. Perform_UpToFace k b f sf ax m u) (f # fs) = Some b'"
  using assms by (auto split: sum.splits option.splits dest: revolveUpToFace_layered)

lemma sweep_base:
  assumes faces: "Faces k sk = f # fs"
    and pa: "\<And>f sf ax a. Perform_Angle k base f sf ax 2 a = Perform_Angle k base' f sf ax 2 a"
    and pu: "\<And>f sf ax u. Perform_UpToFace k base f sf ax 2 u
                = Perform_UpToFace k base' f sf ax 2 u"
    and gu: "\<And>u sk m d. getUpToFace k u base sk m d = getUpToFace k u base' sk m d"
  shows "sweep k s iv sf pnt dir base sk a = sweep k s iv sf pnt dir base' sk a"
  by (simp add: sweep_def Let_def faces pa pu gu split: sum.split)

lemma sweep_swept_solid:
  assumes sw: "sweep k s iv sf pnt dir base sk a = Inr (result, base2)"
    and faces: "Faces k sk = f # fs"
    and pa: "\<And>f sf ax a. Perform_Angle k base f sf ax 2 a
                = Perform_Angle k (TopoDS_Shape k) f sf ax 2 a"
    and pu: "\<And>f sf ax u. Perform_UpToFace k base f sf ax 2 u
                = Perform_UpToFace k (TopoDS_Shape k) f sf ax 2 u"
    and gu: "\<And>u sk m d. getUpToFace k u base sk m d = getUpToFace k u (TopoDS_Shape k) sk m d"
  shows "swept_solid k s iv sf pnt dir sk a = Some result"
proof (cases "Type s")
  case TypeAngle
  with sw obtain b' mk where
    r: "revolveAngle k sf (pnt, dir) a base 2 None (f # fs) = Inr (b', mk)"
    and res: "result = (case mk of Some sh \<Rightarrow> sh | None \<Rightarrow> TopoDS_Shape k)"
    by (auto simp: sweep_def faces split: sum.splits prod.splits)
  from revolveAngle_swept [OF r pa] res TypeAngle show ?thesis
    by (simp add: swept_solid_def faces)
next
  case TypeTwoAngles
  with sw obtain b' mk where
    r: "revolveAngle k sf (pnt, dir) a base 2 None (f # fs) = Inr (b', mk)"
    and res: "result = (case mk of Some sh \<Rightarrow> sh | None \<Rightarrow> TopoDS_Shape k)"
    by (auto simp: sweep_def faces split: sum.splits prod.splits)
  from revolveAngle_swept [OF r pa] res TypeTwoAngles show ?thesis
    by (simp add: swept_solid_def faces)
next
  case TypeUpToFace
  with sw obtain u u' where
    g: "getFaceFromLinkSub k (UpToFace s) = Inr u"
    and g': "getUpToFace k (Move k iv u) base sk ''UpToFace'' dir = Inr u'"
    and r: "revolveUpToFace k sf (pnt, dir) u' base 2 (f # fs) = Inr result"
    by (auto simp: sweep_def faces split: sum.splits prod.splits)
  from revolveUpToFace_swept [OF r pu] g g' [unfolded gu] TypeUpToFace show ?thesis
    by (simp add: swept_solid_def faces)
next
  case TypeUpToFirst
  with sw show ?thesis by (simp add: sweep_UpToFirstLast)
next
  case TypeUpToLast
  with sw show ?thesis by (simp add: sweep_UpToFirstLast)
qed


lemma swept_solid_state:
  "Type t = Type s \<Longrightarrow> UpToFace t = UpToFace s \<Longrightarrow> swept_solid k t = swept_solid k s"
  by (intro ext) (simp add: swept_solid_def split: TypeEnum.split)

lemma try_block_base:
  assumes faces: "\<And>pl sk1 a1. positionByPrevious k = Inr pl \<Longrightarrow>
        adjustProfile k s pnt dir sk a a2 = (sk1, a1) \<Longrightarrow>
        Faces k (Move k (Inverted k (getLocation k pl)) sk1) \<noteq> []"
    and pa: "\<And>b f sf ax a. Perform_Angle k b f sf ax 2 a
                = Perform_Angle k (TopoDS_Shape k) f sf ax 2 a"
    and pu: "\<And>b f sf ax u. Perform_UpToFace k b f sf ax 2 u
                = Perform_UpToFace k (TopoDS_Shape k) f sf ax 2 u"
    and gu: "\<And>u b sk m d. getUpToFace k u b sk m d = getUpToFace k u (TopoDS_Shape k) sk m d"
  shows "try_block k s sk base pnt dir a a2 = try_block k s sk base' pnt dir a a2"
proof (cases "IsNull k sk")
  case True
  then show ?thesis by (simp add: try_block_def)
next
  case nn: False
  obtain sk1 a1 where ad: "adjustProfile k s pnt dir sk a a2 = (sk1, a1)"
    by (rule prod.exhaust)
  show ?thesis
  proof (cases "positionByPrevious k")
    case (Inl e)
    with nn ad show ?thesis by (simp add: try_block_def)
  next
    case (Inr pl)
    define iv where "iv = Inverted k (getLocation k pl)"
    define lin where "lin = (TransformPnt k iv pnt, TransformDir k iv dir)"
    note unf = try_block_positioned [OF nn Inr ad iv_def lin_def]
    from faces [OF Inr ad] obtain f fs where fs: "Faces k (Move k iv sk1) = f # fs"
      unfolding iv_def by (cases "Faces k (Move k (Inverted k (getLocation k pl)) sk1)") auto
    have sw: "sweep k t iv sf' (fst lin) (snd lin) (Move k iv base) (Move k iv sk1) a1
            = sweep k t iv sf' (fst lin) (snd lin) (Move k iv base') (Move k iv sk1) a1"
      for t sf'
      by (rule sweep_base [OF fs])
        (simp_all add: pa [of "Move k iv base"] pa [of "Move k iv base'"]
           pu [of "Move k iv base"] pu [of "Move k iv base'"]
           gu [of _ "Move k iv base"] gu [of _ "Move k iv base'"])
    show ?thesis
      by (simp add: unf sw split: sum.split)
  qed
qed

lemma execute_base:
  assumes faces: "\<And>sk b d pl sk1 a1.
        getVerifiedFace k = Inr sk \<Longrightarrow> getAxis k (ReferenceAxis s) = Inr (b, d) \<Longrightarrow>
        positionByPrevious k = Inr pl \<Longrightarrow>
        adjustProfile k s b (gp_Dir k d) sk
          (if Reversed s \<and> \<not> Midplane s then - toRadians (Angle s) else toRadians (Angle s))
          (toRadians (Angle2 s)) = (sk1, a1) \<Longrightarrow>
        Faces k (Move k (Inverted k (getLocation k pl)) sk1) \<noteq> []"
    and pa: "\<And>b f sf ax a. Perform_Angle k b f sf ax 2 a
                = Perform_Angle k (TopoDS_Shape k) f sf ax 2 a"
    and pu: "\<And>b f sf ax u. Perform_UpToFace k b f sf ax 2 u
                = Perform_UpToFace k (TopoDS_Shape k) f sf ax 2 u"
    and gu: "\<And>u b sk m d. getUpToFace k u b sk m d = getUpToFace k u (TopoDS_Shape k) sk m d"
  shows "execute (k\<lparr>getBaseShape := gb\<rparr>) s = execute k s"
proof (cases "360 < Angle s \<or> toRadians (Angle s) < Precision_Angular k")
  case True
  then have "360 < Angle s \<or> toRadians (Angle s) < Precision_Angular (k\<lparr>getBaseShape := gb\<rparr>)"
    by simp
  from execute_out_of_range [OF this] execute_out_of_range [OF True] show ?thesis
    by simp
next
  case False
  let ?k = "k\<lparr>getBaseShape := gb\<rparr>"
  from False have ok: "\<not> 360 < Angle s" "\<not> toRadians (Angle s) < Precision_Angular k"
    and ok': "\<not> 360 < Angle s" "\<not> toRadians (Angle s) < Precision_Angular ?k"
    by simp_all
  show ?thesis
  proof (cases "getVerifiedFace k")
    case (Inl m)
    then have "getVerifiedFace ?k = Inl m" by simp
    from execute_profile_failed [OF ok' this] execute_profile_failed [OF ok Inl]
    show ?thesis by simp
  next
    case sk: (Inr sk)
    then have sk': "getVerifiedFace ?k = Inr sk" by simp
    show ?thesis
    proof (cases "getAxis k (ReferenceAxis s)")
      case (Inl m)
      then have "getAxis ?k (ReferenceAxis s) = Inl m" by simp
      from execute_axis_failed [OF ok' sk' this] execute_axis_failed [OF ok sk Inl]
      show ?thesis by simp
    next
      case (Inr bd)
      obtain b d where bd: "getAxis k (ReferenceAxis s) = Inr (b, d)"
        using Inr by (cases bd) simp
      then have bd': "getAxis ?k (ReferenceAxis s) = Inr (b, d)" by simp
      define a where "a = (if Reversed s \<and> \<not> Midplane s then - toRadians (Angle s)
                           else toRadians (Angle s))"
      define s1 where "s1 = s\<lparr>Base := b, Axis := d\<rparr>"
      have ad: "adjustProfile k s1 = adjustProfile k s"
        by (rule adjustProfile_state) (simp_all add: s1_def)
      have 1: "try_block ?k s1 sk base b (gp_Dir k d) a (toRadians (Angle2 s))
                 = try_block k s1 sk base b (gp_Dir k d) a (toRadians (Angle2 s))" for base
        by (rule try_block_kernel) (simp_all add: adjustProfile_kernel [of ?k k])
      have 2: "try_block k s1 sk base b (gp_Dir k d) a (toRadians (Angle2 s))
                 = try_block k s1 sk base' b (gp_Dir k d) a (toRadians (Angle2 s))" for base base'
      proof (rule try_block_base)
        fix pl sk1 a1
        assume "positionByPrevious k = Inr pl"
          and "adjustProfile k s1 b (gp_Dir k d) sk a (toRadians (Angle2 s)) = (sk1, a1)"
        then show "Faces k (Move k (Inverted k (getLocation k pl)) sk1) \<noteq> []"
          using faces [OF sk bd, of pl sk1 a1] by (simp add: ad a_def)
      qed (rule pa pu gu)+
      show ?thesis
        unfolding execute_try [OF ok' sk' bd'] execute_try [OF ok sk bd]
          a_def [symmetric] s1_def [symmetric]
        using 2 [of "case gb of Inl m \<Rightarrow> TopoDS_Shape ?k | Inr sh \<Rightarrow> sh"
              "case getBaseShape k of Inl m \<Rightarrow> TopoDS_Shape k | Inr sh \<Rightarrow> sh"]
        by (simp add: 1)
    qed
  qed
qed

lemma execute_success_swept:
  assumes ex: "execute k s = (s', StdReturn)"
    and sk: "getVerifiedFace k = Inr sk" and bd: "getAxis k (ReferenceAxis s) = Inr (b, d)"
    and pp: "positionByPrevious k = Inr pl" and sf: "getSupportFace k = Inr sf"
    and ad: "adjustProfile k s b (gp_Dir k d) sk
          (if Reversed s \<and> \<not> Midplane s then - toRadians (Angle s) else toRadians (Angle s))
          (toRadians (Angle2 s)) = (sk1, a1)"
    and iv: "iv = Inverted k (getLocation k pl)"
    and faces: "Faces k (Move k iv sk1) \<noteq> []"
    and pa: "\<And>b f sf ax a. Perform_Angle k b f sf ax 2 a
                = Perform_Angle k (TopoDS_Shape k) f sf ax 2 a"
    and pu: "\<And>b f sf ax u. Perform_UpToFace k b f sf ax 2 u
                = Perform_UpToFace k (TopoDS_Shape k) f sf ax 2 u"
    and gu: "\<And>u b sk m d. getUpToFace k u b sk m d = getUpToFace k u (TopoDS_Shape k) sk m d"
  shows "\<exists>swept. swept_solid k s iv (Move k iv sf) (TransformPnt k iv b)
                    (TransformDir k iv (gp_Dir k d)) (Move k iv sk1) a1 = Some swept
           \<and> \<not> IsNull k swept \<and> refineShapeIfActive k swept = Inr (AddSubShape s')"
  using ex
proof (cases rule: execute_elim)
  case (early e)
  then show ?thesis by simp
next
  case (tried sk' b' d' x)
  from tried(3,4) sk bd have eq: "sk' = sk" "b' = b" "d' = d" by simp_all
  define s1 where "s1 = s\<lparr>Base := b, Axis := d\<rparr>"
  define base where "base = (case getBaseShape k of Inl m \<Rightarrow> TopoDS_Shape k | Inr sh \<Rightarrow> sh)"
  define lin where "lin = (TransformPnt k iv b, TransformDir k iv (gp_Dir k d))"
  from tried(6) have x: "x = Inr StdReturn"
    by (cases x) (simp_all add: handler_results [symmetric])
  have tb: "try_block k s1 sk base b (gp_Dir k d)
            (if Reversed s \<and> \<not> Midplane s then - toRadians (Angle s) else toRadians (Angle s))
            (toRadians (Angle2 s)) = (s', Inr StdReturn)"
    using tried(5) unfolding eq x s1_def base_def .
  have nn: "\<not> IsNull k sk"
    using tb by (auto simp: try_block_def)
  have ad1: "adjustProfile k s1 b (gp_Dir k d) sk
          (if Reversed s \<and> \<not> Midplane s then - toRadians (Angle s) else toRadians (Angle s))
          (toRadians (Angle2 s)) = (sk1, a1)"
    using ad adjustProfile_state [of s1 s k] by (simp add: s1_def)
  note unf = try_block_positioned [OF nn pp ad1 iv lin_def]
  from faces obtain f fs where fs: "Faces k (Move k iv sk1) = f # fs"
    by (cases "Faces k (Move k iv sk1)") auto
  from tb [unfolded unf] sf obtain result base2 where
    sw: "sweep k (s1\<lparr>Placement := pl\<rparr>) iv (Move k iv sf) (fst lin) (snd lin)
           (Move k iv base) (Move k iv sk1) a1 = Inr (result, base2)"
    and cm: "commit k (s1\<lparr>Placement := pl\<rparr>) result base2 = (s', Inr StdReturn)"
    by (auto split: if_splits sum.splits prod.splits)
  have "swept_solid k (s1\<lparr>Placement := pl\<rparr>) iv (Move k iv sf) (fst lin) (snd lin)
          (Move k iv sk1) a1 = Some result"
    by (rule sweep_swept_solid [OF sw fs]) (rule pa pu gu)+
  moreover have "swept_solid k (s1\<lparr>Placement := pl\<rparr>) = swept_solid k s"
    by (rule swept_solid_state) (simp_all add: s1_def)
  ultimately show ?thesis
    using commit_success [OF cm] by (simp add: lin_def)
qed

subsection \<open>Runs of the concrete kernel\<close>

lemma demo_angle_ok:
  "\<not> toRadians 360 < Precision_Angular demo_kernel"
  using toRadians_not_small [of 360] by (simp add: demo_kernel_def)

lemma execute_demo:
  "execute demo_kernel demo_feature =
     (demo_feature\<lparr>AddSubShape := Revol 0 (toRadians 360),
                    Shape := Fused (Revol 0 (toRadians 360)) (Revol 0 (toRadians 360))\<rparr>,
      StdReturn)"
  using toRadians_not_small [of 360]
  by (simp add: execute_def demo_kernel_def demo_feature_def updateAxis_def try_block_def
     adjustProfile_def sweep_def commit_def fuseWithBase_def demo_getAxis_def Let_def)

lemma execute_demo_Fuse_not_done:
  "execute (demo_kernel\<lparr>Fuse := demo_Fuse_not_done\<rparr>) demo_feature =
     (demo_feature\<lparr>AddSubShape := Revol 0 (toRadians 360)\<rparr>,
      ExecReturn (BaseError ''Fusion with base feature failed''))"
  using toRadians_not_small [of 360]
  by (simp add: execute_def demo_kernel_def demo_feature_def updateAxis_def try_block_def
     adjustProfile_def sweep_def commit_def fuseWithBase_def demo_getAxis_def Let_def
     demo_Fuse_not_done_def FusionFailed_def)


lemmas demo_eval = execute_def demo_kernel_def demo_feature_def updateAxis_def try_block_def
  adjustProfile_def sweep_def commit_def fuseWithBase_def demo_getAxis_def Let_def


subsection \<open>Angle validation\<close>

text \<open>
  Claim C4. \<^verbatim>\<open>execute\<close> returns one of the two angle errors exactly when \<^verbatim>\<open>Angle\<close> exceeds
  360 degrees or its value in radians is below \<^verbatim>\<open>Precision::Angular()\<close>; it then returns at
  once, with the feature unchanged and without consulting any collaborator. \<^verbatim>\<open>Angle = 0\<close>
  (for a positive precision) and \<^verbatim>\<open>Angle = 360.0001\<close> are rejected; \<^verbatim>\<open>Angle = 360\<close> passes the
  validation (for a precision of at most a full turn).
\<close>

theorem execute_AngleOutOfRange:
  "((snd (execute k s) = ExecReturn AngleTooLarge \<or> snd (execute k s) = ExecReturn AngleTooSmall)
      \<longleftrightarrow> (360 < Angle s \<or> toRadians (Angle s) < Precision_Angular k))
   \<and> (360 < Angle s \<or> toRadians (Angle s) < Precision_Angular k \<longrightarrow>
        execute k s = (s, ExecReturn (if 360 < Angle s then AngleTooLarge else AngleTooSmall)))
   \<and> (Angle s = 0 \<and> 0 < Precision_Angular k \<longrightarrow> execute k s = (s, ExecReturn AngleTooSmall))
   \<and> (Angle s = 360.0001 \<longrightarrow> execute k s = (s, ExecReturn AngleTooLarge))
   \<and> (Angle s = 360 \<and> Precision_Angular k \<le> 2 * pi \<longrightarrow>
        snd (execute k s) \<noteq> ExecReturn AngleTooLarge \<and>
        snd (execute k s) \<noteq> ExecReturn AngleTooSmall)"
proof -
  have iff: "(snd (execute k s) = ExecReturn AngleTooLarge \<or>
              snd (execute k s) = ExecReturn AngleTooSmall)
      \<longleftrightarrow> (360 < Angle s \<or> toRadians (Angle s) < Precision_Angular k)"
    using execute_out_of_range [of s k] execute_in_range [of s k]
    by (cases "360 < Angle s \<or> toRadians (Angle s) < Precision_Angular k") auto
  have zero: "Angle s = 0 \<and> 0 < Precision_Angular k \<longrightarrow>
      execute k s = (s, ExecReturn AngleTooSmall)"
    using execute_out_of_range [of s k] by (simp add: toRadians_def)
  have large: "Angle s = 360.0001 \<longrightarrow> execute k s = (s, ExecReturn AngleTooLarge)"
    using execute_out_of_range [of s k] by simp
  have full: "Angle s = 360 \<and> Precision_Angular k \<le> 2 * pi \<longrightarrow>
      snd (execute k s) \<noteq> ExecReturn AngleTooLarge \<and>
      snd (execute k s) \<noteq> ExecReturn AngleTooSmall"
    using execute_in_range [of s k] by (simp add: toRadians_def)
  from iff zero large full execute_out_of_range [of s k] show ?thesis
    by blast
qed

theorem execute_AngleOutOfRange_witness:
  "execute demo_kernel (demo_feature\<lparr>Angle := 0\<rparr>)
     = (demo_feature\<lparr>Angle := 0\<rparr>, ExecReturn AngleTooSmall)
   \<and> execute demo_kernel (demo_feature\<lparr>Angle := 360.0001\<rparr>)
     = (demo_feature\<lparr>Angle := 360.0001\<rparr>, ExecReturn AngleTooLarge)
   \<and> Angle demo_feature = 360
   \<and> snd (execute demo_kernel demo_feature) \<noteq> ExecReturn AngleTooLarge
   \<and> snd (execute demo_kernel demo_feature) \<noteq> ExecReturn AngleTooSmall"
proof -
  have eps: "0 < Precision_Angular demo_kernel" "Precision_Angular demo_kernel \<le> 2 * pi"
    using pi_ge_two by (simp_all add: demo_kernel_def)
  have a: "Angle (demo_feature\<lparr>Angle := 0\<rparr>) = 0"
    and b: "Angle (demo_feature\<lparr>Angle := 360.0001\<rparr>) = 360.0001"
    and c: "Angle demo_feature = 360"
    by (simp_all add: demo_feature_def)
  show ?thesis
    using execute_AngleOutOfRange [of demo_kernel "demo_feature\<lparr>Angle := 0\<rparr>"]
      execute_AngleOutOfRange [of demo_kernel "demo_feature\<lparr>Angle := 360.0001\<rparr>"]
      execute_AngleOutOfRange [of demo_kernel demo_feature] eps a b c
    by blast
qed

subsection \<open>Direction suggestion\<close>

text \<open>
  Claim C9. When the axis does not resolve (\<^verbatim>\<open>getAxis\<close> throws), \<^verbatim>\<open>suggestReversed\<close> returns
  false and leaves the feature, \<^verbatim>\<open>Base\<close> and \<^verbatim>\<open>Axis\<close> included, as it was. When the axis
  resolves, \<^verbatim>\<open>Base\<close> and \<^verbatim>\<open>Axis\<close> are updated and the result is true exactly when
  \<^verbatim>\<open>getReversedAngle(Base, Axis)\<close> is below zero.
\<close>

theorem suggestReversed_spec:
  "(\<forall>m. getAxis k (ReferenceAxis s) = Inl m \<longrightarrow> suggestReversed k s = (s, False)) \<and>
   (\<forall>b d. getAxis k (ReferenceAxis s) = Inr (b, d) \<longrightarrow>
      suggestReversed k s = (s\<lparr>Base := b, Axis := d\<rparr>, getReversedAngle k b d < 0))"
  by (simp add: suggestReversed_def updateAxis_def)

theorem suggestReversed_spec_witness:
  "suggestReversed demo_kernel (demo_feature\<lparr>ReferenceAxis := False\<rparr>)
     = (demo_feature\<lparr>ReferenceAxis := False\<rparr>, False)
   \<and> suggestReversed demo_kernel (demo_feature\<lparr>Base := (1, 1, 1)\<rparr>) = (demo_feature, True)"
proof -
  have a: "getAxis demo_kernel (ReferenceAxis (demo_feature\<lparr>ReferenceAxis := False\<rparr>))
             = Inl ''No rotation axis reference specified''"
    by (simp add: demo_kernel_def demo_getAxis_def)
  have b: "getAxis demo_kernel (ReferenceAxis (demo_feature\<lparr>Base := (1, 1, 1)\<rparr>))
             = Inr ((0, 0, 0), (0, 1, 0))"
    by (simp add: demo_kernel_def demo_getAxis_def demo_feature_def)
  have c: "getReversedAngle demo_kernel (0, 0, 0) (0, 1, 0) < 0"
    by (simp add: demo_kernel_def)
  have d: "demo_feature\<lparr>Base := (1, 1, 1)\<rparr>\<lparr>Base := (0, 0, 0), Axis := (0, 1, 0)\<rparr> = demo_feature"
    by (simp add: demo_feature_def)
  show ?thesis
    using suggestReversed_spec [of demo_kernel "demo_feature\<lparr>ReferenceAxis := False\<rparr>"]
      suggestReversed_spec [of demo_kernel "demo_feature\<lparr>Base := (1, 1, 1)\<rparr>"] a b c d
    by simp
qed

subsection \<open>Failure and the committed shapes\<close>

text \<open>
  Claim C1, as stated: a failure of \<^verbatim>\<open>execute\<close> leaves both \<^verbatim>\<open>Shape\<close> and \<^verbatim>\<open>AddSubShape\<close>
  as they were. It does not hold: \<^verbatim>\<open>AddSubShape\<close> is set at line 220, before the fusion of
  line 224, so a fusion that does not complete returns a failure with \<^verbatim>\<open>AddSubShape\<close>
  already overwritten.
\<close>

theorem execute_failure_AddSubShape_counterexample:
  "execute (demo_kernel\<lparr>Fuse := demo_Fuse_not_done\<rparr>) demo_feature =
     (demo_feature\<lparr>AddSubShape := Revol 0 (toRadians 360)\<rparr>,
      ExecReturn (BaseError ''Fusion with base feature failed''))
   \<and> AddSubShape (demo_feature\<lparr>AddSubShape := Revol 0 (toRadians 360)\<rparr>)
       \<noteq> AddSubShape demo_feature"
  using execute_demo_Fuse_not_done by (simp add: demo_feature_def)

text \<open>
  Claim C1, amended. A failure of \<^verbatim>\<open>execute\<close> leaves \<^verbatim>\<open>Shape\<close> as it was. It leaves
  \<^verbatim>\<open>AddSubShape\<close> as it was when it is one of the failures returned without an exception
  (angle out of range, null profile, axis crossing the profile, no revolve result);
  otherwise \<^verbatim>\<open>AddSubShape\<close> is either unchanged or holds the refined result of the sweep,
  and the exception came from the fusion with the base, from the refinement of the fused
  shape or from \<^verbatim>\<open>getSolid\<close>.
\<close>

theorem execute_failure_commit:
  assumes "execute k s = (s', ExecReturn e)"
  shows "Shape s' = Shape s
    \<and> (e \<in> {AngleTooLarge, AngleTooSmall, FaceFromSketchFailed, AxisIntersectsSketch,
              CouldNotRevolve} \<longrightarrow> AddSubShape s' = AddSubShape s)
    \<and> (AddSubShape s' = AddSubShape s \<or>
        (\<exists>result base ex. \<not> IsNull k result
           \<and> refineShapeIfActive k result = Inr (AddSubShape s')
           \<and> handler ex = ExecReturn e
           \<and> (fuseWithBase k base (AddSubShape s') = Inl ex \<or>
               (\<exists>final. fuseWithBase k base (AddSubShape s') = Inr final
                  \<and> getSolid k final = Inl ex))))"
proof (cases "360 < Angle s \<or> toRadians (Angle s) < Precision_Angular k")
  case True
  from assms have "s' = s" by (simp add: execute_out_of_range [OF True])
  then show ?thesis by simp
next
  case False
  then have ok: "\<not> 360 < Angle s" "\<not> toRadians (Angle s) < Precision_Angular k" by simp_all
  show ?thesis
  proof (cases "getVerifiedFace k")
    case (Inl m)
    from assms have "s' = s" by (simp add: execute_profile_failed [OF ok Inl])
    then show ?thesis by simp
  next
    case sk: (Inr sk)
    show ?thesis
    proof (cases "getAxis k (ReferenceAxis s)")
      case (Inl m)
      from assms have "s' = s" by (simp add: execute_axis_failed [OF ok sk Inl])
      then show ?thesis by simp
    next
      case (Inr bd)
      obtain b d where bd: "getAxis k (ReferenceAxis s) = Inr (b, d)"
        using Inr by (cases bd) simp
      define s1 where "s1 = s\<lparr>Base := b, Axis := d\<rparr>"
      obtain base a a2 x where tb: "try_block k s1 sk base b (gp_Dir k d) a a2 = (s', x)"
        and r: "ExecReturn e = (case x of Inl ex \<Rightarrow> handler ex | Inr r \<Rightarrow> r)"
        using assms unfolding execute_try [OF ok sk bd] s1_def
        by (auto split: prod.splits)
      have s1: "Shape s1 = Shape s" "AddSubShape s1 = AddSubShape s"
        by (simp_all add: s1_def)
      show ?thesis
      proof (cases x)
        case (Inl ex)
        with r have h: "handler ex = ExecReturn e" by simp
        have "Shape s' = Shape s"
          using try_block_failure_Shape [OF tb] Inl s1 by simp
        moreover have "e \<notin> {AngleTooLarge, AngleTooSmall, FaceFromSketchFailed,
            AxisIntersectsSketch, CouldNotRevolve}"
          using h by (cases ex) (auto split: if_splits)
        moreover have "AddSubShape s' = AddSubShape s \<or>
          (\<exists>result base ex. \<not> IsNull k result
             \<and> refineShapeIfActive k result = Inr (AddSubShape s')
             \<and> handler ex = ExecReturn e
             \<and> (fuseWithBase k base (AddSubShape s') = Inl ex \<or>
               (\<exists>final. fuseWithBase k base (AddSubShape s') = Inr final
                  \<and> getSolid k final = Inl ex)))"
          using try_block_thrown [OF tb [unfolded Inl]] h s1 by metis
        ultimately show ?thesis by blast
      next
        case (Inr r')
        with r have r': "x = Inr (ExecReturn e)" by simp
        have "Shape s' = Shape s"
          using try_block_failure_Shape [OF tb] r' s1 by simp
        moreover have "AddSubShape s' = AddSubShape s"
          using try_block_ExecReturn [OF tb [unfolded r']] s1 by simp
        ultimately show ?thesis by simp
      qed
    qed
  qed
qed

theorem execute_failure_commit_witness:
  "execute (demo_kernel\<lparr>Fuse := demo_Fuse_not_done\<rparr>) demo_feature =
     (demo_feature\<lparr>AddSubShape := Revol 0 (toRadians 360)\<rparr>,
      ExecReturn (BaseError ''Fusion with base feature failed''))
   \<and> Shape (demo_feature\<lparr>AddSubShape := Revol 0 (toRadians 360)\<rparr>) = Shape demo_feature"
  using execute_failure_commit [OF execute_demo_Fuse_not_done] execute_demo_Fuse_not_done
  by simp

subsection \<open>The swept solid\<close>

text \<open>
  Claim C2, as stated: after every successful run the \<^verbatim>\<open>AddSubShape\<close> that \<^verbatim>\<open>execute\<close> leaves is
  the swept material alone, whatever the base solid is and whether or not there is one.
  Two runs show otherwise. In the up-to-face branch the result is the \<open>base\<close> that the
  loop leaves (line 195): for a profile without faces the loop does not run, and the
  successful run leaves the base solid itself in \<^verbatim>\<open>AddSubShape\<close>. In both branches the first
  revolve is handed the base solid (lines 184 and 202): with a revolve operation that
  fuses what it sweeps with the base it is handed, \<^verbatim>\<open>AddSubShape\<close> contains the base solid and
  differs with and without one.
\<close>

theorem AddSubShape_base_counterexample:
  "execute (demo_kernel\<lparr>getBaseShape := Inr (Revol 9 9), Faces := demo_no_Faces\<rparr>)
       (demo_feature\<lparr>Type := TypeUpToFace\<rparr>)
     = (demo_feature\<lparr>Type := TypeUpToFace, AddSubShape := Revol 9 9,
                      Shape := Fused (Revol 9 9) (Revol 9 9)\<rparr>, StdReturn)
   \<and> AddSubShape (fst (execute
        (demo_kernel\<lparr>getBaseShape := Inr (Revol 9 9), Perform_Angle := demo_Perform_fusing\<rparr>)
        demo_feature))
       = Fused (Revol 9 9) (Revol 0 (toRadians 360))
   \<and> AddSubShape (fst (execute (demo_kernel\<lparr>Perform_Angle := demo_Perform_fusing\<rparr>)
        demo_feature))
       = Fused Null (Revol 0 (toRadians 360))
   \<and> snd (execute
        (demo_kernel\<lparr>getBaseShape := Inr (Revol 9 9), Perform_Angle := demo_Perform_fusing\<rparr>)
        demo_feature) = StdReturn
   \<and> snd (execute (demo_kernel\<lparr>Perform_Angle := demo_Perform_fusing\<rparr>) demo_feature)
       = StdReturn"
  using toRadians_not_small [of 360]
  by (simp add: demo_eval demo_no_Faces_def demo_Perform_fusing_def)

text \<open>
  Claim C2, amended. In every run \<^verbatim>\<open>AddSubShape\<close> is set before the fusion with the base
  (line 220 before line 224) and is the same whatever \<^verbatim>\<open>BRepAlgoAPI_Fuse\<close> does. When the
  revolve operations in mode 2 and \<^verbatim>\<open>getUpToFace\<close> do not use the base they are handed: after
  every successful run on a profile that has a face, for every termination mode,
  \<^verbatim>\<open>AddSubShape\<close> is the refinement of the swept material alone, the first face revolved on
  its own and each further face revolved in mode 1 onto the result so far; and, the
  positioned profile having a face, \<^verbatim>\<open>AddSubShape\<close> is the same whatever \<^verbatim>\<open>getBaseShape\<close>
  returns, a base solid or none.
\<close>

theorem AddSubShape_swept_material:
  "(\<forall>fu. AddSubShape (fst (execute (k\<lparr>Fuse := fu\<rparr>) s)) = AddSubShape (fst (execute k s)))
   \<and> ((\<forall>b f sf ax a. Perform_Angle k b f sf ax 2 a
                        = Perform_Angle k (TopoDS_Shape k) f sf ax 2 a)
      \<and> (\<forall>b f sf ax u. Perform_UpToFace k b f sf ax 2 u
                        = Perform_UpToFace k (TopoDS_Shape k) f sf ax 2 u)
      \<and> (\<forall>u b sk m d. getUpToFace k u b sk m d = getUpToFace k u (TopoDS_Shape k) sk m d)
      \<longrightarrow>
        (\<forall>s' sk b d pl sf sk1 a1.
            execute k s = (s', StdReturn)
            \<and> getVerifiedFace k = Inr sk \<and> getAxis k (ReferenceAxis s) = Inr (b, d)
            \<and> positionByPrevious k = Inr pl \<and> getSupportFace k = Inr sf
            \<and> adjustProfile k s b (gp_Dir k d) sk
                 (if Reversed s \<and> \<not> Midplane s then - toRadians (Angle s)
                  else toRadians (Angle s))
                 (toRadians (Angle2 s)) = (sk1, a1)
            \<and> Faces k (Move k (Inverted k (getLocation k pl)) sk1) \<noteq> []
            \<longrightarrow> (\<exists>swept.
                  swept_solid k s (Inverted k (getLocation k pl))
                      (Move k (Inverted k (getLocation k pl)) sf)
                      (TransformPnt k (Inverted k (getLocation k pl)) b)
                      (TransformDir k (Inverted k (getLocation k pl)) (gp_Dir k d))
                      (Move k (Inverted k (getLocation k pl)) sk1) a1 = Some swept
                  \<and> \<not> IsNull k swept
                  \<and> refineShapeIfActive k swept = Inr (AddSubShape s')))
        \<and> ((\<forall>sk b d pl sk1 a1.
               getVerifiedFace k = Inr sk \<and> getAxis k (ReferenceAxis s) = Inr (b, d)
               \<and> positionByPrevious k = Inr pl
               \<and> adjustProfile k s b (gp_Dir k d) sk
                    (if Reversed s \<and> \<not> Midplane s then - toRadians (Angle s)
                     else toRadians (Angle s))
                    (toRadians (Angle2 s)) = (sk1, a1)
               \<longrightarrow> Faces k (Move k (Inverted k (getLocation k pl)) sk1) \<noteq> [])
            \<longrightarrow> (\<forall>gb. AddSubShape (fst (execute (k\<lparr>getBaseShape := gb\<rparr>) s))
                        = AddSubShape (fst (execute k s)))))"
proof (intro conjI impI allI)
  fix fu
  show "AddSubShape (fst (execute (k\<lparr>Fuse := fu\<rparr>) s)) = AddSubShape (fst (execute k s))"
    by (rule execute_Fuse_AddSubShape)
next
  fix s' sk b d pl sf sk1 a1
  assume h: "(\<forall>b f sf ax a. Perform_Angle k b f sf ax 2 a
                        = Perform_Angle k (TopoDS_Shape k) f sf ax 2 a)
      \<and> (\<forall>b f sf ax u. Perform_UpToFace k b f sf ax 2 u
                        = Perform_UpToFace k (TopoDS_Shape k) f sf ax 2 u)
      \<and> (\<forall>u b sk m d. getUpToFace k u b sk m d = getUpToFace k u (TopoDS_Shape k) sk m d)"
    and r: "execute k s = (s', StdReturn)
            \<and> getVerifiedFace k = Inr sk \<and> getAxis k (ReferenceAxis s) = Inr (b, d)
            \<and> positionByPrevious k = Inr pl \<and> getSupportFace k = Inr sf
            \<and> adjustProfile k s b (gp_Dir k d) sk
                 (if Reversed s \<and> \<not> Midplane s then - toRadians (Angle s)
                  else toRadians (Angle s))
                 (toRadians (Angle2 s)) = (sk1, a1)
            \<and> Faces k (Move k (Inverted k (getLocation k pl)) sk1) \<noteq> []"
  show "\<exists>swept.
                  swept_solid k s (Inverted k (getLocation k pl))
                      (Move k (Inverted k (getLocation k pl)) sf)
                      (TransformPnt k (Inverted k (getLocation k pl)) b)
                      (TransformDir k (Inverted k (getLocation k pl)) (gp_Dir k d))
                      (Move k (Inverted k (getLocation k pl)) sk1) a1 = Some swept
                  \<and> \<not> IsNull k swept
                  \<and> refineShapeIfActive k swept = Inr (AddSubShape s')"
  proof (rule execute_success_swept [where sk = sk and b = b and d = d and pl = pl])
    show "execute k s = (s', StdReturn)" "getVerifiedFace k = Inr sk"
      "getAxis k (ReferenceAxis s) = Inr (b, d)" "positionByPrevious k = Inr pl"
      "getSupportFace k = Inr sf"
      "adjustProfile k s b (gp_Dir k d) sk
                 (if Reversed s \<and> \<not> Midplane s then - toRadians (Angle s)
                  else toRadians (Angle s))
                 (toRadians (Angle2 s)) = (sk1, a1)"
      "Faces k (Move k (Inverted k (getLocation k pl)) sk1) \<noteq> []"
      using r by simp_all
  qed (use h in blast)+
next
  fix gb
  assume h: "(\<forall>b f sf ax a. Perform_Angle k b f sf ax 2 a
                        = Perform_Angle k (TopoDS_Shape k) f sf ax 2 a)
      \<and> (\<forall>b f sf ax u. Perform_UpToFace k b f sf ax 2 u
                        = Perform_UpToFace k (TopoDS_Shape k) f sf ax 2 u)
      \<and> (\<forall>u b sk m d. getUpToFace k u b sk m d = getUpToFace k u (TopoDS_Shape k) sk m d)"
    and faces: "\<forall>sk b d pl sk1 a1.
               getVerifiedFace k = Inr sk \<and> getAxis k (ReferenceAxis s) = Inr (b, d)
               \<and> positionByPrevious k = Inr pl
               \<and> adjustProfile k s b (gp_Dir k d) sk
                    (if Reversed s \<and> \<not> Midplane s then - toRadians (Angle s)
                     else toRadians (Angle s))
                    (toRadians (Angle2 s)) = (sk1, a1)
               \<longrightarrow> Faces k (Move k (Inverted k (getLocation k pl)) sk1) \<noteq> []"
  have "execute (k\<lparr>getBaseShape := gb\<rparr>) s = execute k s"
  proof (rule execute_base)
    fix sk b d pl sk1 a1
    assume "getVerifiedFace k = Inr sk" "getAxis k (ReferenceAxis s) = Inr (b, d)"
      "positionByPrevious k = Inr pl"
      "adjustProfile k s b (gp_Dir k d) sk
          (if Reversed s \<and> \<not> Midplane s then - toRadians (Angle s) else toRadians (Angle s))
          (toRadians (Angle2 s)) = (sk1, a1)"
    with faces show "Faces k (Move k (Inverted k (getLocation k pl)) sk1) \<noteq> []"
      by blast
  qed (use h in blast)+
  then show "AddSubShape (fst (execute (k\<lparr>getBaseShape := gb\<rparr>) s))
               = AddSubShape (fst (execute k s))"
    by simp
qed

theorem AddSubShape_swept_material_witness:
  "execute demo_layering_kernel demo_feature
     = (demo_feature\<lparr>
          AddSubShape := Fused (Revol 0 (toRadians 360)) (Revol 1 (toRadians 360)),
          Shape := Fused (Fused (Revol 0 (toRadians 360)) (Revol 1 (toRadians 360)))
                         (Fused (Revol 0 (toRadians 360)) (Revol 1 (toRadians 360)))\<rparr>,
        StdReturn)
   \<and> AddSubShape (fst (execute (demo_layering_kernel\<lparr>Fuse := demo_Fuse_not_done\<rparr>)
        demo_feature))
       = Fused (Revol 0 (toRadians 360)) (Revol 1 (toRadians 360))
   \<and> swept_solid demo_layering_kernel demo_feature 0 Null (0, 0, 0) (0, 1, 0) (Face 0)
        (toRadians 360)
       = Some (Fused (Revol 0 (toRadians 360)) (Revol 1 (toRadians 360)))
   \<and> AddSubShape (fst (execute
        (demo_layering_kernel\<lparr>getBaseShape := Inl ''No base feature''\<rparr>) demo_feature))
       = Fused (Revol 0 (toRadians 360)) (Revol 1 (toRadians 360))"
proof -
  let ?k = "demo_layering_kernel"
  let ?X = "Fused (Revol 0 (toRadians 360)) (Revol 1 (toRadians 360))"
  note th = AddSubShape_swept_material [of ?k demo_feature]
  have e: "execute ?k demo_feature
             = (demo_feature\<lparr>AddSubShape := ?X, Shape := Fused ?X ?X\<rparr>, StdReturn)"
    using toRadians_not_small [of 360]
    by (simp add: demo_eval demo_layering_kernel_def demo_two_Faces_def
          demo_Perform_layering_def)
  have h: "(\<forall>b f sf ax a. Perform_Angle ?k b f sf ax 2 a
                        = Perform_Angle ?k (TopoDS_Shape ?k) f sf ax 2 a)
      \<and> (\<forall>b f sf ax u. Perform_UpToFace ?k b f sf ax 2 u
                        = Perform_UpToFace ?k (TopoDS_Shape ?k) f sf ax 2 u)
      \<and> (\<forall>u b sk m d. getUpToFace ?k u b sk m d = getUpToFace ?k u (TopoDS_Shape ?k) sk m d)"
    by (simp add: demo_layering_kernel_def demo_kernel_def demo_Perform_layering_def)
  have 1: "AddSubShape (fst (execute (?k\<lparr>Fuse := demo_Fuse_not_done\<rparr>) demo_feature)) = ?X"
    using th [THEN conjunct1, THEN spec, of demo_Fuse_not_done] by (simp add: e)
  have pre: "execute ?k demo_feature
               = (demo_feature\<lparr>AddSubShape := ?X, Shape := Fused ?X ?X\<rparr>, StdReturn)
            \<and> getVerifiedFace ?k = Inr (Face 0)
            \<and> getAxis ?k (ReferenceAxis demo_feature) = Inr ((0, 0, 0), (0, 1, 0))
            \<and> positionByPrevious ?k = Inr 0 \<and> getSupportFace ?k = Inr Null
            \<and> adjustProfile ?k demo_feature (0, 0, 0) (gp_Dir ?k (0, 1, 0)) (Face 0)
                 (if Reversed demo_feature \<and> \<not> Midplane demo_feature
                  then - toRadians (Angle demo_feature) else toRadians (Angle demo_feature))
                 (toRadians (Angle2 demo_feature)) = (Face 0, toRadians 360)
            \<and> Faces ?k (Move ?k (Inverted ?k (getLocation ?k 0)) (Face 0)) \<noteq> []"
    by (simp add: e)
      (simp add: demo_layering_kernel_def demo_kernel_def demo_feature_def demo_getAxis_def
         adjustProfile_def demo_two_Faces_def)
  have "\<exists>swept.
          swept_solid ?k demo_feature (Inverted ?k (getLocation ?k 0))
              (Move ?k (Inverted ?k (getLocation ?k 0)) Null)
              (TransformPnt ?k (Inverted ?k (getLocation ?k 0)) (0, 0, 0))
              (TransformDir ?k (Inverted ?k (getLocation ?k 0)) (gp_Dir ?k (0, 1, 0)))
              (Move ?k (Inverted ?k (getLocation ?k 0)) (Face 0)) (toRadians 360) = Some swept
          \<and> \<not> IsNull ?k swept
          \<and> refineShapeIfActive ?k swept
              = Inr (AddSubShape (demo_feature\<lparr>AddSubShape := ?X, Shape := Fused ?X ?X\<rparr>))"
    by (rule th [THEN conjunct2, THEN mp, OF h, THEN conjunct1, THEN spec, THEN spec,
          THEN spec, THEN spec, THEN spec, THEN spec, THEN spec, THEN spec, THEN mp, OF pre])
  then have 2: "swept_solid ?k demo_feature 0 Null (0, 0, 0) (0, 1, 0) (Face 0) (toRadians 360)
                  = Some ?X"
    by (auto simp: demo_layering_kernel_def demo_kernel_def)
  have faces: "\<forall>sk b d pl sk1 a1.
               getVerifiedFace ?k = Inr sk
               \<and> getAxis ?k (ReferenceAxis demo_feature) = Inr (b, d)
               \<and> positionByPrevious ?k = Inr pl
               \<and> adjustProfile ?k demo_feature b (gp_Dir ?k d) sk
                    (if Reversed demo_feature \<and> \<not> Midplane demo_feature
                     then - toRadians (Angle demo_feature) else toRadians (Angle demo_feature))
                    (toRadians (Angle2 demo_feature)) = (sk1, a1)
               \<longrightarrow> Faces ?k (Move ?k (Inverted ?k (getLocation ?k pl)) sk1) \<noteq> []"
    by (simp add: demo_layering_kernel_def demo_two_Faces_def)
  have 3: "AddSubShape (fst (execute (?k\<lparr>getBaseShape := Inl ''No base feature''\<rparr>)
              demo_feature)) = ?X"
    using th [THEN conjunct2, THEN mp, OF h, THEN conjunct2, THEN mp, OF faces, THEN spec,
        of "Inl ''No base feature''"]
    by (simp add: e)
  from e 1 2 3 show ?thesis by simp
qed

subsection \<open>Unsupported termination modes\<close>

text \<open>
  Claim C3, as stated: with \<^verbatim>\<open>Type\<close> \<^verbatim>\<open>UpToFirst\<close> or \<^verbatim>\<open>UpToLast\<close>, \<^verbatim>\<open>execute\<close> fails with the
  "up to first/last is not yet supported" error whatever the other inputs are, an
  out-of-range angle included. It does not hold: the angle is validated first (lines
  85-91), so \<^verbatim>\<open>Angle = 400\<close> gives "Angle of revolution too large".
\<close>

theorem execute_UpToFirstLast_counterexample:
  "execute demo_kernel (demo_feature\<lparr>Type := TypeUpToFirst, Angle := 400\<rparr>)
     = (demo_feature\<lparr>Type := TypeUpToFirst, Angle := 400\<rparr>, ExecReturn AngleTooLarge)
   \<and> ExecReturn AngleTooLarge \<noteq> handler UpToFirstLastNotSupported"
  by (simp add: execute_def Let_def demo_feature_def UpToFirstLastNotSupported_def)

text \<open>
  Claim C3, amended. With \<^verbatim>\<open>Type\<close> \<^verbatim>\<open>UpToFirst\<close> or \<^verbatim>\<open>UpToLast\<close>, \<^verbatim>\<open>execute\<close> never succeeds, and
  the revolve stage throws "up to first/last is not yet supported" whatever its arguments
  are. \<^verbatim>\<open>execute\<close> returns that error whenever the earlier checks pass: the angle is in
  range, the profile is obtained and not null, the axis resolves, \<^verbatim>\<open>positionByPrevious\<close>
  returns, the axis crosses no face of the profile and the support face is obtained.
\<close>

theorem execute_UpToFirstLast:
  assumes "Type s = TypeUpToFirst \<or> Type s = TypeUpToLast"
  shows "snd (execute k s) \<noteq> StdReturn
    \<and> sweep k s invObjLoc supportface pnt dir base sketchshape angle
          = Inl UpToFirstLastNotSupported
    \<and> (\<forall>sk b d pl sf.
          \<not> 360 < Angle s \<and> \<not> toRadians (Angle s) < Precision_Angular k
          \<and> getVerifiedFace k = Inr sk \<and> \<not> IsNull k sk
          \<and> getAxis k (ReferenceAxis s) = Inr (b, d)
          \<and> positionByPrevious k = Inr pl
          \<and> \<not> axisCrossesSketch k
                (TransformPnt k (Inverted k (getLocation k pl)) b,
                 TransformDir k (Inverted k (getLocation k pl)) (gp_Dir k d))
                (Faces k (Move k (Inverted k (getLocation k pl))
                   (if Midplane s
                    then Move k (SetRotation k (b, gp_Dir k d) (- toRadians (Angle s) / 2)) sk
                    else sk)))
          \<and> getSupportFace k = Inr sf
          \<longrightarrow> execute k s = (s\<lparr>Base := b, Axis := d, Placement := pl\<rparr>,
                ExecReturn (BaseError
                  ''ProfileBased: Revolution up to first/last is not yet supported'')))"
proof (intro conjI allI impI)
  show "snd (execute k s) \<noteq> StdReturn"
  proof
    assume "snd (execute k s) = StdReturn"
    then have "execute k s = (fst (execute k s), StdReturn)"
      by (metis prod.collapse)
    from execute_success_AddSubShape [OF this] obtain s1 iv sf p1 d1 b1 sk1 a1 r b2
      where "Type s1 = Type s" and "sweep k s1 iv sf p1 d1 b1 sk1 a1 = Inr (r, b2)"
      by blast
    with assms sweep_UpToFirstLast [of s1 k iv sf p1 d1 b1 sk1 a1] show False
      by simp
  qed
next
  show "sweep k s invObjLoc supportface pnt dir base sketchshape angle
          = Inl UpToFirstLastNotSupported"
    by (rule sweep_UpToFirstLast [OF assms])
next
  fix sk b d pl sf
  assume h: "\<not> 360 < Angle s \<and> \<not> toRadians (Angle s) < Precision_Angular k
          \<and> getVerifiedFace k = Inr sk \<and> \<not> IsNull k sk
          \<and> getAxis k (ReferenceAxis s) = Inr (b, d)
          \<and> positionByPrevious k = Inr pl
          \<and> \<not> axisCrossesSketch k
                (TransformPnt k (Inverted k (getLocation k pl)) b,
                 TransformDir k (Inverted k (getLocation k pl)) (gp_Dir k d))
                (Faces k (Move k (Inverted k (getLocation k pl))
                   (if Midplane s
                    then Move k (SetRotation k (b, gp_Dir k d) (- toRadians (Angle s) / 2)) sk
                    else sk)))
          \<and> getSupportFace k = Inr sf"
  define s1 where "s1 = s\<lparr>Base := b, Axis := d\<rparr>"
  have ty: "Type s1 \<noteq> TypeTwoAngles \<or> Midplane s1"
    using assms by (auto simp: s1_def)
  have "try_block k s1 sk base' b (gp_Dir k d) a a2
          = (s1\<lparr>Placement := pl\<rparr>, Inl UpToFirstLastNotSupported)" for base' a a2
  proof -
    from h have nn: "\<not> IsNull k sk" and pp: "positionByPrevious k = Inr pl" by simp_all
    show ?thesis
      unfolding try_block_positioned [OF nn pp adjustProfile_not_TwoAngles [OF ty] refl refl]
      using h assms by (auto simp: sweep_UpToFirstLast s1_def)
  qed
  then show "execute k s = (s\<lparr>Base := b, Axis := d, Placement := pl\<rparr>,
                ExecReturn (BaseError
                  ''ProfileBased: Revolution up to first/last is not yet supported''))"
    using h by (simp add: execute_try [of s k sk b d] s1_def UpToFirstLastNotSupported_def)
qed

theorem execute_UpToFirstLast_witness:
  "Type (demo_feature\<lparr>Type := TypeUpToFirst\<rparr>) = TypeUpToFirst
   \<and> execute demo_kernel (demo_feature\<lparr>Type := TypeUpToFirst\<rparr>)
       = (demo_feature\<lparr>Type := TypeUpToFirst\<rparr>,
          ExecReturn (BaseError
            ''ProfileBased: Revolution up to first/last is not yet supported''))"
proof -
  have ty: "Type (demo_feature\<lparr>Type := TypeUpToFirst\<rparr>) = TypeUpToFirst
            \<or> Type (demo_feature\<lparr>Type := TypeUpToFirst\<rparr>) = TypeUpToLast"
    by simp
  have upd: "demo_feature\<lparr>Type := TypeUpToFirst\<rparr>
               \<lparr>Base := (0, 0, 0), Axis := (0, 1, 0), Placement := 0\<rparr>
             = demo_feature\<lparr>Type := TypeUpToFirst\<rparr>"
    by (simp add: demo_feature_def)
  have pre: "\<not> 360 < Angle (demo_feature\<lparr>Type := TypeUpToFirst\<rparr>)"
    "\<not> toRadians (Angle (demo_feature\<lparr>Type := TypeUpToFirst\<rparr>)) < Precision_Angular demo_kernel"
    "getVerifiedFace demo_kernel = Inr (Face 0)" "\<not> IsNull demo_kernel (Face 0)"
    "getAxis demo_kernel (ReferenceAxis (demo_feature\<lparr>Type := TypeUpToFirst\<rparr>))
       = Inr ((0, 0, 0), (0, 1, 0))"
    "positionByPrevious demo_kernel = Inr 0" "getSupportFace demo_kernel = Inr Null"
    "\<And>lin fs. \<not> axisCrossesSketch demo_kernel lin [fs]"
    "\<And>sh. Faces demo_kernel sh = [sh]"
    using toRadians_not_small [of 360]
    by (simp_all add: demo_kernel_def demo_feature_def demo_getAxis_def)
  show ?thesis
    using execute_UpToFirstLast [OF ty, where k = demo_kernel] pre upd
    by simp
qed

subsection \<open>Determinism\<close>

text \<open>
  Claim C8. \<^verbatim>\<open>updateAxis\<close> called again on the feature it left gives the same feature, and
  the \<^verbatim>\<open>Base\<close> and \<^verbatim>\<open>Axis\<close> it computes depend on \<^verbatim>\<open>ReferenceAxis\<close> alone. \<^verbatim>\<open>execute\<close> called
  again on the feature it left returns the same result and leaves the same feature,
  \<^verbatim>\<open>Shape\<close> included.
\<close>

theorem updateAxis_execute_idempotent:
  "(\<forall>s1. updateAxis k s = Inr s1 \<longrightarrow> updateAxis k s1 = Inr s1)
   \<and> (\<forall>t. ReferenceAxis t = ReferenceAxis s \<longrightarrow>
         map_sum id (\<lambda>u. (Base u, Axis u)) (updateAxis k t)
           = map_sum id (\<lambda>u. (Base u, Axis u)) (updateAxis k s))
   \<and> execute k (fst (execute k s)) = execute k s"
proof -
  have a: "\<forall>s1. updateAxis k s = Inr s1 \<longrightarrow> updateAxis k s1 = Inr s1"
    by (auto simp: updateAxis_def split: sum.splits)
  have b: "\<forall>t. ReferenceAxis t = ReferenceAxis s \<longrightarrow>
         map_sum id (\<lambda>u. (Base u, Axis u)) (updateAxis k t)
           = map_sum id (\<lambda>u. (Base u, Axis u)) (updateAxis k s)"
    by (auto simp: updateAxis_def split: sum.splits)
  have c: "execute k (fst (execute k s)) = execute k s"
    using execute_again [of k s "fst (execute k s)" "snd (execute k s)"] by simp
  from a b c show ?thesis by blast
qed

theorem updateAxis_execute_idempotent_witness:
  "updateAxis demo_kernel (demo_feature\<lparr>Base := (1, 1, 1)\<rparr>) = Inr demo_feature
   \<and> updateAxis demo_kernel demo_feature = Inr demo_feature
   \<and> execute demo_kernel (fst (execute demo_kernel demo_feature))
       = execute demo_kernel demo_feature"
proof -
  have 1: "updateAxis demo_kernel (demo_feature\<lparr>Base := (1, 1, 1)\<rparr>) = Inr demo_feature"
    by (simp add: updateAxis_def demo_kernel_def demo_getAxis_def demo_feature_def)
  show ?thesis
    using updateAxis_execute_idempotent [of demo_kernel "demo_feature\<lparr>Base := (1, 1, 1)\<rparr>"]
      updateAxis_execute_idempotent [of demo_kernel demo_feature] 1
    by blast
qed

subsection \<open>Sweep angle, reversal and the mid-plane option\<close>

text \<open>
  Claim C5. For every \<^verbatim>\<open>Type\<close> but \<^verbatim>\<open>TwoAngles\<close> (and for \<^verbatim>\<open>TwoAngles\<close> too when \<^verbatim>\<open>Midplane\<close> is
  set), the only sweep angle \<^verbatim>\<open>execute\<close> hands to \<^verbatim>\<open>RevolMaker.Perform\<close> is the angle in
  radians, negated exactly when \<^verbatim>\<open>Reversed\<close> is set and \<^verbatim>\<open>Midplane\<close> is not: replacing the
  operation by any other that agrees with it at that angle changes nothing. When
  \<^verbatim>\<open>Midplane\<close> is set, \<^verbatim>\<open>Reversed\<close> has no effect on the result or on the feature left; the
  profile is moved by the rotation about the axis by minus half the angle, whatever the
  \<^verbatim>\<open>Type\<close> is, and that is the only rotation \<^verbatim>\<open>execute\<close> asks for.
\<close>

theorem sweep_angle_and_Midplane:
  "(Type s \<noteq> TypeTwoAngles \<or> Midplane s \<longrightarrow>
      (\<forall>PA. (\<forall>b f sf ax m.
               PA b f sf ax m (if Reversed s \<and> \<not> Midplane s then - toRadians (Angle s)
                               else toRadians (Angle s))
               = Perform_Angle k b f sf ax m
                   (if Reversed s \<and> \<not> Midplane s then - toRadians (Angle s)
                    else toRadians (Angle s)))
         \<longrightarrow> execute (k\<lparr>Perform_Angle := PA\<rparr>) s = execute k s))
   \<and> (Midplane s \<longrightarrow>
        (\<forall>r. execute k (s\<lparr>Reversed := r\<rparr>)
               = (fst (execute k s)\<lparr>Reversed := r\<rparr>, snd (execute k s))))
   \<and> (Midplane s \<longrightarrow>
        (\<forall>pnt dir sketchshape angle angle2.
           adjustProfile k s pnt dir sketchshape angle angle2
             = (Move k (SetRotation k (pnt, dir) (- toRadians (Angle s) / 2)) sketchshape,
                angle)))
   \<and> (Midplane s \<longrightarrow>
        (\<forall>R. (\<forall>b d. getAxis k (ReferenceAxis s) = Inr (b, d) \<longrightarrow>
                 R (b, gp_Dir k d) (- toRadians (Angle s) / 2)
                   = SetRotation k (b, gp_Dir k d) (- toRadians (Angle s) / 2))
         \<longrightarrow> execute (k\<lparr>SetRotation := R\<rparr>) s = execute k s))"
proof (intro conjI impI allI)
  fix PA
  assume ty: "Type s \<noteq> TypeTwoAngles \<or> Midplane s"
    and pa: "\<forall>b f sf ax m.
               PA b f sf ax m (if Reversed s \<and> \<not> Midplane s then - toRadians (Angle s)
                               else toRadians (Angle s))
               = Perform_Angle k b f sf ax m
                   (if Reversed s \<and> \<not> Midplane s then - toRadians (Angle s)
                    else toRadians (Angle s))"
  let ?A = "if Reversed s \<and> \<not> Midplane s then - toRadians (Angle s) else toRadians (Angle s)"
  show "execute (k\<lparr>Perform_Angle := PA\<rparr>) s = execute k s"
  proof (rule execute_Perform_Angle_at [where A = ?A])
    fix sk b d sk1 a1
    assume "adjustProfile k s b (gp_Dir k d) sk ?A (toRadians (Angle2 s)) = (sk1, a1)"
    then show "a1 = ?A"
      by (simp add: adjustProfile_not_TwoAngles [OF ty])
  next
    fix b f sf ax m
    from pa show "PA b f sf ax m ?A = Perform_Angle k b f sf ax m ?A"
      by blast
  qed
next
  fix r
  assume "Midplane s"
  then show "execute k (s\<lparr>Reversed := r\<rparr>)
               = (fst (execute k s)\<lparr>Reversed := r\<rparr>, snd (execute k s))"
    by (simp add: execute_Reversed_Midplane split_beta)
next
  fix pnt dir sketchshape angle angle2
  assume "Midplane s"
  then show "adjustProfile k s pnt dir sketchshape angle angle2
             = (Move k (SetRotation k (pnt, dir) (- toRadians (Angle s) / 2)) sketchshape,
                angle)"
    by (rule adjustProfile_Midplane)
next
  fix R
  assume m: "Midplane s"
    and r: "\<forall>b d. getAxis k (ReferenceAxis s) = Inr (b, d) \<longrightarrow>
                 R (b, gp_Dir k d) (- toRadians (Angle s) / 2)
                   = SetRotation k (b, gp_Dir k d) (- toRadians (Angle s) / 2)"
  show "execute (k\<lparr>SetRotation := R\<rparr>) s = execute k s"
  proof (rule execute_SetRotation)
    fix sk b d
    assume "getAxis k (ReferenceAxis s) = Inr (b, d)"
    with r have "R (b, gp_Dir k d) (- toRadians (Angle s) / 2)
                   = SetRotation k (b, gp_Dir k d) (- toRadians (Angle s) / 2)"
      by blast
    with m show "adjustProfile (k\<lparr>SetRotation := R\<rparr>) s b (gp_Dir k d) sk
          (if Reversed s \<and> \<not> Midplane s then - toRadians (Angle s) else toRadians (Angle s))
          (toRadians (Angle2 s))
        = adjustProfile k s b (gp_Dir k d) sk
          (if Reversed s \<and> \<not> Midplane s then - toRadians (Angle s) else toRadians (Angle s))
          (toRadians (Angle2 s))"
      by (simp add: adjustProfile_Midplane)
  qed
qed


theorem sweep_angle_and_Midplane_witness:
  "execute (demo_kernel\<lparr>Perform_Angle := demo_Perform_only (- toRadians 360)\<rparr>)
       (demo_feature\<lparr>Reversed := True\<rparr>)
     = execute demo_kernel (demo_feature\<lparr>Reversed := True\<rparr>)
   \<and> AddSubShape (fst (execute demo_kernel (demo_feature\<lparr>Reversed := True\<rparr>)))
       = Revol 0 (- toRadians 360)
   \<and> execute demo_kernel (demo_feature\<lparr>Midplane := True\<rparr>\<lparr>Reversed := True\<rparr>)
       = (fst (execute demo_kernel (demo_feature\<lparr>Midplane := True\<rparr>))\<lparr>Reversed := True\<rparr>,
          StdReturn)
   \<and> AddSubShape (fst (execute demo_kernel (demo_feature\<lparr>Midplane := True\<rparr>)))
       = Revol (- toRadians 360 / 2) (toRadians 360)"
proof -
  let ?r = "demo_feature\<lparr>Reversed := True\<rparr>" and ?m = "demo_feature\<lparr>Midplane := True\<rparr>"
  have r: "Type ?r \<noteq> TypeTwoAngles \<or> Midplane ?r" and m: "Midplane ?m"
    by (simp_all add: demo_feature_def)
  have pa: "\<forall>b f sf ax m. demo_Perform_only (- toRadians 360) b f sf ax m
               (if Reversed ?r \<and> \<not> Midplane ?r then - toRadians (Angle ?r)
                else toRadians (Angle ?r))
              = Perform_Angle demo_kernel b f sf ax m
                 (if Reversed ?r \<and> \<not> Midplane ?r then - toRadians (Angle ?r)
                  else toRadians (Angle ?r))"
    by (simp add: demo_Perform_only_def demo_kernel_def demo_feature_def)
  have 1: "execute demo_kernel ?r
      = (?r\<lparr>AddSubShape := Revol 0 (- toRadians 360),
            Shape := Fused (Revol 0 (- toRadians 360)) (Revol 0 (- toRadians 360))\<rparr>, StdReturn)"
    using toRadians_not_small [of 360] by (simp add: demo_eval)
  have 2: "execute demo_kernel ?m
      = (?m\<lparr>AddSubShape := Revol (- toRadians 360 / 2) (toRadians 360),
            Shape := Fused (Revol (- toRadians 360 / 2) (toRadians 360))
                           (Revol (- toRadians 360 / 2) (toRadians 360))\<rparr>, StdReturn)"
    using toRadians_not_small [of 360] by (simp add: demo_eval)
  have 3: "execute (demo_kernel\<lparr>Perform_Angle := demo_Perform_only (- toRadians 360)\<rparr>) ?r
             = execute demo_kernel ?r"
    by (rule sweep_angle_and_Midplane [of ?r demo_kernel, THEN conjunct1, THEN mp, OF r,
          THEN spec [where x = "demo_Perform_only (- toRadians 360)"], THEN mp, OF pa])
  have 4: "execute demo_kernel (?m\<lparr>Reversed := True\<rparr>)
             = (fst (execute demo_kernel ?m)\<lparr>Reversed := True\<rparr>, snd (execute demo_kernel ?m))"
    by (rule sweep_angle_and_Midplane [of ?m demo_kernel, THEN conjunct2, THEN conjunct1,
          rule_format, OF m])
  from 3 4 show ?thesis
    unfolding 1 2 by simp
qed

subsection \<open>Mid-plane with two angles\<close>

text \<open>
  Claim C10. With \<^verbatim>\<open>Midplane\<close> set and \<^verbatim>\<open>Type\<close> \<^verbatim>\<open>TwoAngles\<close>: the profile is rotated by minus
  half the (unreversed) angle and the sweep angle is left as it is; \<^verbatim>\<open>Angle2\<close> has no
  effect on the result or on the feature left; the only sweep angle handed to
  \<^verbatim>\<open>RevolMaker.Perform\<close> is the angle in radians, and the only rotation asked for is the one
  about the axis by minus half of it.
\<close>

theorem Midplane_overrides_TwoAngles:
  assumes "Midplane s" and "Type s = TypeTwoAngles"
  shows "adjustProfile k s pnt dir sketchshape angle angle2
           = (Move k (SetRotation k (pnt, dir) (- toRadians (Angle s) / 2)) sketchshape, angle)
   \<and> execute k (s\<lparr>Angle2 := x\<rparr>) = (fst (execute k s)\<lparr>Angle2 := x\<rparr>, snd (execute k s))
   \<and> ((\<forall>b f sf ax m. PA b f sf ax m (toRadians (Angle s))
                        = Perform_Angle k b f sf ax m (toRadians (Angle s)))
        \<longrightarrow> execute (k\<lparr>Perform_Angle := PA\<rparr>) s = execute k s)
   \<and> ((\<forall>b d. getAxis k (ReferenceAxis s) = Inr (b, d) \<longrightarrow>
                 R (b, gp_Dir k d) (- toRadians (Angle s) / 2)
                   = SetRotation k (b, gp_Dir k d) (- toRadians (Angle s) / 2))
        \<longrightarrow> execute (k\<lparr>SetRotation := R\<rparr>) s = execute k s)"
proof (intro conjI impI)
  show "adjustProfile k s pnt dir sketchshape angle angle2
           = (Move k (SetRotation k (pnt, dir) (- toRadians (Angle s) / 2)) sketchshape, angle)"
    using assms(1) by (rule adjustProfile_Midplane)
next
  show "execute k (s\<lparr>Angle2 := x\<rparr>) = (fst (execute k s)\<lparr>Angle2 := x\<rparr>, snd (execute k s))"
    using assms(1) by (simp add: execute_Angle2_unused split_beta)
next
  assume pa: "\<forall>b f sf ax m. PA b f sf ax m (toRadians (Angle s))
                        = Perform_Angle k b f sf ax m (toRadians (Angle s))"
  show "execute (k\<lparr>Perform_Angle := PA\<rparr>) s = execute k s"
  proof (rule execute_Perform_Angle_at [where A = "toRadians (Angle s)"])
    fix sk b d sk1 a1
    assume "adjustProfile k s b (gp_Dir k d) sk
          (if Reversed s \<and> \<not> Midplane s then - toRadians (Angle s) else toRadians (Angle s))
          (toRadians (Angle2 s)) = (sk1, a1)"
    then show "a1 = toRadians (Angle s)"
      using assms(1) by (simp add: adjustProfile_Midplane)
  next
    fix b f sf ax m
    from pa show "PA b f sf ax m (toRadians (Angle s))
                    = Perform_Angle k b f sf ax m (toRadians (Angle s))"
      by blast
  qed
next
  assume r: "\<forall>b d. getAxis k (ReferenceAxis s) = Inr (b, d) \<longrightarrow>
                 R (b, gp_Dir k d) (- toRadians (Angle s) / 2)
                   = SetRotation k (b, gp_Dir k d) (- toRadians (Angle s) / 2)"
  show "execute (k\<lparr>SetRotation := R\<rparr>) s = execute k s"
  proof (rule execute_SetRotation)
    fix sk b d
    assume "getAxis k (ReferenceAxis s) = Inr (b, d)"
    with r have "R (b, gp_Dir k d) (- toRadians (Angle s) / 2)
                   = SetRotation k (b, gp_Dir k d) (- toRadians (Angle s) / 2)"
      by blast
    with assms(1) show "adjustProfile (k\<lparr>SetRotation := R\<rparr>) s b (gp_Dir k d) sk
          (if Reversed s \<and> \<not> Midplane s then - toRadians (Angle s) else toRadians (Angle s))
          (toRadians (Angle2 s))
        = adjustProfile k s b (gp_Dir k d) sk
          (if Reversed s \<and> \<not> Midplane s then - toRadians (Angle s) else toRadians (Angle s))
          (toRadians (Angle2 s))"
      by (simp add: adjustProfile_Midplane)
  qed
qed

theorem Midplane_overrides_TwoAngles_witness:
  "Midplane (demo_feature\<lparr>Type := TypeTwoAngles, Midplane := True\<rparr>)
   \<and> Type (demo_feature\<lparr>Type := TypeTwoAngles, Midplane := True\<rparr>) = TypeTwoAngles
   \<and> execute demo_kernel (demo_feature\<lparr>Type := TypeTwoAngles, Midplane := True\<rparr>\<lparr>Angle2 := 20\<rparr>)
       = (fst (execute demo_kernel (demo_feature\<lparr>Type := TypeTwoAngles, Midplane := True\<rparr>))
            \<lparr>Angle2 := 20\<rparr>, StdReturn)
   \<and> AddSubShape (fst (execute demo_kernel
         (demo_feature\<lparr>Type := TypeTwoAngles, Midplane := True\<rparr>)))
       = Revol (- toRadians 360 / 2) (toRadians 360)"
proof -
  let ?s = "demo_feature\<lparr>Type := TypeTwoAngles, Midplane := True\<rparr>"
  have s: "Midplane ?s" "Type ?s = TypeTwoAngles"
    by (simp_all add: demo_feature_def)
  have 1: "execute demo_kernel ?s
      = (?s\<lparr>AddSubShape := Revol (- toRadians 360 / 2) (toRadians 360),
            Shape := Fused (Revol (- toRadians 360 / 2) (toRadians 360))
                           (Revol (- toRadians 360 / 2) (toRadians 360))\<rparr>, StdReturn)"
    using toRadians_not_small [of 360] by (simp add: demo_eval)
  have 2: "execute demo_kernel (?s\<lparr>Angle2 := 20\<rparr>)
             = (fst (execute demo_kernel ?s)\<lparr>Angle2 := 20\<rparr>, snd (execute demo_kernel ?s))"
    by (rule Midplane_overrides_TwoAngles [OF s, THEN conjunct2, THEN conjunct1])
  from 2 s show ?thesis
    unfolding 1 by simp
qed

subsection \<open>The axis must not cross the profile\<close>

text \<open>
  Claim C7. When the run reaches the check of lines 157-163 (the angle is in range, the
  profile is obtained and not null, the axis resolves, \<^verbatim>\<open>positionByPrevious\<close> returns) and
  the axis crosses some face of the positioned profile, \<^verbatim>\<open>execute\<close> returns "Revolve axis
  intersects the sketch". No revolve is ever performed on a face that the axis crosses:
  replacing both revolve operations by any others that agree with them on the faces the
  axis does not cross changes nothing.
\<close>

theorem axis_crossing_profile:
  "(\<forall>sk b d pl sk1 a1 f.
       \<not> 360 < Angle s \<and> \<not> toRadians (Angle s) < Precision_Angular k
       \<and> getVerifiedFace k = Inr sk \<and> \<not> IsNull k sk
       \<and> getAxis k (ReferenceAxis s) = Inr (b, d)
       \<and> positionByPrevious k = Inr pl
       \<and> adjustProfile k s b (gp_Dir k d) sk
            (if Reversed s \<and> \<not> Midplane s then - toRadians (Angle s) else toRadians (Angle s))
            (toRadians (Angle2 s)) = (sk1, a1)
       \<and> f \<in> set (Faces k (Move k (Inverted k (getLocation k pl)) sk1))
       \<and> checkLineCrossesFace k
            (TransformPnt k (Inverted k (getLocation k pl)) b,
             TransformDir k (Inverted k (getLocation k pl)) (gp_Dir k d)) f
       \<longrightarrow> execute k s = (s\<lparr>Base := b, Axis := d, Placement := pl\<rparr>,
                          ExecReturn AxisIntersectsSketch))
   \<and> (\<forall>PA PU.
        (\<forall>bs f sf lin m a u. \<not> checkLineCrossesFace k lin f \<longrightarrow>
            PA bs f sf lin m a = Perform_Angle k bs f sf lin m a \<and>
            PU bs f sf lin m u = Perform_UpToFace k bs f sf lin m u)
        \<longrightarrow> execute (k\<lparr>Perform_Angle := PA, Perform_UpToFace := PU\<rparr>) s = execute k s)"
proof (intro conjI allI impI)
  fix sk b d pl sk1 a1 f
  let ?A = "if Reversed s \<and> \<not> Midplane s then - toRadians (Angle s) else toRadians (Angle s)"
  let ?iv = "Inverted k (getLocation k pl)"
  assume h: "\<not> 360 < Angle s \<and> \<not> toRadians (Angle s) < Precision_Angular k
       \<and> getVerifiedFace k = Inr sk \<and> \<not> IsNull k sk
       \<and> getAxis k (ReferenceAxis s) = Inr (b, d)
       \<and> positionByPrevious k = Inr pl
       \<and> adjustProfile k s b (gp_Dir k d) sk ?A (toRadians (Angle2 s)) = (sk1, a1)
       \<and> f \<in> set (Faces k (Move k ?iv sk1))
       \<and> checkLineCrossesFace k (TransformPnt k ?iv b, TransformDir k ?iv (gp_Dir k d)) f"
  define s1 where "s1 = s\<lparr>Base := b, Axis := d\<rparr>"
  have ad: "adjustProfile k s1 = adjustProfile k s"
    by (rule adjustProfile_state) (simp_all add: s1_def)
  from h have nn: "\<not> IsNull k sk" and pp: "positionByPrevious k = Inr pl"
    and adj: "adjustProfile k s1 b (gp_Dir k d) sk ?A (toRadians (Angle2 s)) = (sk1, a1)"
    and cross: "axisCrossesSketch k (TransformPnt k ?iv b, TransformDir k ?iv (gp_Dir k d))
                  (Faces k (Move k ?iv sk1))"
    by (auto simp: ad axisCrossesSketch_iff)
  have "try_block k s1 sk base b (gp_Dir k d) ?A (toRadians (Angle2 s))
          = (s1\<lparr>Placement := pl\<rparr>, Inr (ExecReturn AxisIntersectsSketch))" for base
    unfolding try_block_positioned [OF nn pp adj refl refl] using cross by simp
  then show "execute k s = (s\<lparr>Base := b, Axis := d, Placement := pl\<rparr>,
                          ExecReturn AxisIntersectsSketch)"
    using h by (simp add: execute_try [of s k sk b d] s1_def)
next
  fix PA PU
  assume "\<forall>bs f sf lin m a u. \<not> checkLineCrossesFace k lin f \<longrightarrow>
            PA bs f sf lin m a = Perform_Angle k bs f sf lin m a \<and>
            PU bs f sf lin m u = Perform_UpToFace k bs f sf lin m u"
  then show "execute (k\<lparr>Perform_Angle := PA, Perform_UpToFace := PU\<rparr>) s = execute k s"
    by (intro execute_Perform) blast
qed

theorem axis_crossing_profile_witness:
  "execute (demo_kernel\<lparr>checkLineCrossesFace := demo_crossing\<rparr>) demo_feature
     = (demo_feature, ExecReturn AxisIntersectsSketch)
   \<and> execute (demo_kernel\<lparr>checkLineCrossesFace := demo_crossing,
         Perform_Angle := demo_Perform_only 0, Perform_UpToFace := demo_Perform_UpToFace_none\<rparr>)
       demo_feature
     = execute (demo_kernel\<lparr>checkLineCrossesFace := demo_crossing\<rparr>) demo_feature"
proof -
  let ?k = "demo_kernel\<lparr>checkLineCrossesFace := demo_crossing\<rparr>"
  have pre: "\<not> 360 < Angle demo_feature"
    "\<not> toRadians (Angle demo_feature) < Precision_Angular ?k"
    "getVerifiedFace ?k = Inr (Face 0)" "\<not> IsNull ?k (Face 0)"
    "getAxis ?k (ReferenceAxis demo_feature) = Inr ((0, 0, 0), (0, 1, 0))"
    "positionByPrevious ?k = Inr 0"
    "adjustProfile ?k demo_feature (0, 0, 0) (gp_Dir ?k (0, 1, 0)) (Face 0)
        (if Reversed demo_feature \<and> \<not> Midplane demo_feature
         then - toRadians (Angle demo_feature) else toRadians (Angle demo_feature))
        (toRadians (Angle2 demo_feature)) = (Face 0, toRadians 360)"
    "Face 0 \<in> set (Faces ?k (Move ?k (Inverted ?k (getLocation ?k 0)) (Face 0)))"
    "\<And>lin f. checkLineCrossesFace ?k lin f"
    "demo_feature\<lparr>Base := (0, 0, 0), Axis := (0, 1, 0), Placement := 0\<rparr> = demo_feature"
    using toRadians_not_small [of 360]
    by (simp_all add: demo_kernel_def demo_feature_def demo_getAxis_def adjustProfile_def
          demo_crossing_def)
  have 1: "execute ?k demo_feature = (demo_feature, ExecReturn AxisIntersectsSketch)"
    using axis_crossing_profile [of demo_feature ?k, THEN conjunct1, rule_format,
        of "Face 0" "(0, 0, 0)" "(0, 1, 0)" 0 "Face 0" "toRadians 360" "Face 0"] pre
    by simp
  have "\<forall>bs f sf lin m a u. \<not> checkLineCrossesFace ?k lin f \<longrightarrow>
            demo_Perform_only 0 bs f sf lin m a = Perform_Angle ?k bs f sf lin m a \<and>
            demo_Perform_UpToFace_none bs f sf lin m u = Perform_UpToFace ?k bs f sf lin m u"
    using pre(9) by blast
  then have 2: "execute (?k\<lparr>Perform_Angle := demo_Perform_only 0,
                Perform_UpToFace := demo_Perform_UpToFace_none\<rparr>) demo_feature
            = execute ?k demo_feature"
    by (rule axis_crossing_profile [of demo_feature ?k, THEN conjunct2, THEN spec, THEN spec,
          THEN mp])
  from 1 2 show ?thesis by simp
qed

subsection \<open>Two angles\<close>




end
